theory Spec2Isabelle
  imports Main
begin

section \<open>JavaScript values and strings\<close>

text \<open>
  The script \<^verbatim>\<open>scripts/github-issue-to-jira.mjs\<close> works on JSON-like JavaScript
  values: the event payload, the parsed issue form, the Jira payload. They are
  modelled by one datatype. An object is an association list of its own properties,
  in insertion order. A string is a list of characters, read as code units below 256
  (Latin-1); a number is an integer.
\<close>

datatype jsval =
    JUndefined
  | JNull
  | JBool bool
  | JNum int
  | JStr string
  | JArr "jsval list"
  | JObj "(string \<times> jsval) list"

text \<open>Property read \<^verbatim>\<open>o[k]\<close>: \<^verbatim>\<open>undefined\<close> for a property that is not there,
  and for a value that is not an object (none of the names the script reads is a
  property of a primitive or of an array).\<close>

fun getProp :: "jsval \<Rightarrow> string \<Rightarrow> jsval" where
  "getProp (JObj kvs) k = (case map_of kvs k of None \<Rightarrow> JUndefined | Some v \<Rightarrow> v)"
| "getProp _ k = JUndefined"

text \<open>\<^verbatim>\<open>a ?? b\<close>\<close>

definition nullish :: "jsval \<Rightarrow> bool" where
  "nullish v = (v = JUndefined \<or> v = JNull)"

definition orElse :: "jsval \<Rightarrow> jsval \<Rightarrow> jsval" where
  "orElse a b = (if nullish a then b else a)"

text \<open>\<^verbatim>\<open>Boolean(v)\<close>, the test of \<^verbatim>\<open>!v\<close> and of \<^verbatim>\<open>filter(Boolean)\<close>.\<close>

fun truthy :: "jsval \<Rightarrow> bool" where
  "truthy JUndefined = False"
| "truthy JNull = False"
| "truthy (JBool b) = b"
| "truthy (JNum n) = (n \<noteq> 0)"
| "truthy (JStr s) = (s \<noteq> [])"
| "truthy (JArr _) = True"
| "truthy (JObj _) = True"

fun isArray :: "jsval \<Rightarrow> bool" where
  "isArray (JArr _) = True"
| "isArray _ = False"

text \<open>\<^verbatim>\<open>a[0]\<close> of an array: \<^verbatim>\<open>undefined\<close> when the array is empty.\<close>

fun first_elem :: "jsval \<Rightarrow> jsval" where
  "first_elem (JArr (x # _)) = x"
| "first_elem _ = JUndefined"

subsection \<open>Numbers and strings\<close>

fun digits :: "nat \<Rightarrow> string" where
  "digits n = (if n < 10 then [char_of (48 + n)]
               else digits (n div 10) @ [char_of (48 + n mod 10)])"

definition show_int :: "int \<Rightarrow> string" where
  "show_int i = (if i < 0 then CHR ''-'' # digits (nat (- i)) else digits (nat i))"

fun join_strings :: "string \<Rightarrow> string list \<Rightarrow> string" where
  "join_strings sep [] = []"
| "join_strings sep [s] = s"
| "join_strings sep (s # t # ss) = s @ sep @ join_strings sep (t # ss)"

text \<open>\<^verbatim>\<open>String(v)\<close>, also the conversion of \<^verbatim>\<open>${v}\<close> in a template literal. An array
  is its elements joined by a comma, \<^verbatim>\<open>undefined\<close> and \<^verbatim>\<open>null\<close> elements
  giving the empty string.\<close>

fun toString :: "jsval \<Rightarrow> string" where
  "toString JUndefined = ''undefined''"
| "toString JNull = ''null''"
| "toString (JBool b) = (if b then ''true'' else ''false'')"
| "toString (JNum n) = show_int n"
| "toString (JStr s) = s"
| "toString (JArr xs) =
     join_strings '','' (map (\<lambda>x. if x = JUndefined \<or> x = JNull then [] else toString x) xs)"
| "toString (JObj _) = ''[object Object]''"

text \<open>\<^verbatim>\<open>a.join(sep)\<close>\<close>

definition join :: "string \<Rightarrow> jsval list \<Rightarrow> string" where
  "join sep xs =
     join_strings sep (map (\<lambda>x. if x = JUndefined \<or> x = JNull then [] else toString x) xs)"

text \<open>White space of \<^verbatim>\<open>trim()\<close> and of the regular expression class \<^verbatim>\<open>\s\<close>, among
  the code units below 256: tab, line feed, vertical tab, form feed, carriage
  return, space, no-break space.\<close>

definition is_space :: "char \<Rightarrow> bool" where
  "is_space c = (c \<in> set [CHR 0x09, CHR 0x0A, CHR 0x0B, CHR 0x0C, CHR 0x0D, CHR 0x20, CHR 0xA0])"

definition trim :: "string \<Rightarrow> string" where
  "trim s = rev (dropWhile is_space (rev (dropWhile is_space s)))"

definition startsWith :: "string \<Rightarrow> string \<Rightarrow> bool" where
  "startsWith s p = (take (length p) s = p)"

text \<open>\<^verbatim>\<open>toLowerCase()\<close> on code units below 256: the ASCII capitals and the
  Latin-1 capitals \<^verbatim>\<open>U+00C0\<close> to \<^verbatim>\<open>U+00DE\<close> (the multiplication sign apart) move
  up by 32.\<close>

definition lower_char :: "char \<Rightarrow> char" where
  "lower_char c =
     (let n = (of_char c :: nat)
      in if (65 \<le> n \<and> n \<le> 90) \<or> (192 \<le> n \<and> n \<le> 222 \<and> n \<noteq> 215)
         then char_of (n + 32) else c)"

definition toLowerCase :: "string \<Rightarrow> string" where
  "toLowerCase s = map lower_char s"

section \<open>Label sanitisation\<close>

text \<open>\<^verbatim>\<open>.replace(/\s+/g, "-")\<close>: every maximal run of white space becomes one hyphen.\<close>

function replace_space_runs :: "string \<Rightarrow> string" where
  "replace_space_runs [] = []"
| "replace_space_runs (c # cs) =
     (if is_space c then CHR ''-'' # replace_space_runs (dropWhile is_space cs)
      else c # replace_space_runs cs)"
  by pat_completeness auto
termination
  by (relation "measure length") (auto simp: length_dropWhile_le less_Suc_eq_le)

text \<open>The class \<^verbatim>\<open>[a-z0-9-_]\<close>.\<close>

definition label_char :: "char \<Rightarrow> bool" where
  "label_char c =
     (let n = (of_char c :: nat)
      in (97 \<le> n \<and> n \<le> 122) \<or> (48 \<le> n \<and> n \<le> 57) \<or> c = CHR ''-'' \<or> c = CHR ''_'')"

text \<open>\<^verbatim>\<open>.replace(/[^a-z0-9-_]/g, "-")\<close>\<close>

definition replace_other :: "string \<Rightarrow> string" where
  "replace_other s = map (\<lambda>c. if label_char c then c else CHR ''-'') s"

text \<open>\<^verbatim>\<open>.replace(/-+/g, "-")\<close>: every maximal run of hyphens becomes one hyphen.\<close>

function collapse_hyphens :: "string \<Rightarrow> string" where
  "collapse_hyphens [] = []"
| "collapse_hyphens (c # cs) =
     (if c = CHR ''-'' then CHR ''-'' # collapse_hyphens (dropWhile (\<lambda>d. d = CHR ''-'') cs)
      else c # collapse_hyphens cs)"
  by pat_completeness auto
termination
  by (relation "measure length") (auto simp: length_dropWhile_le less_Suc_eq_le)

text \<open>\<^verbatim>\<open>.replace(/^-|-$/g, "")\<close>: one hyphen at the start is removed, and one hyphen
  at the end of what is left.\<close>

definition strip_edge_hyphen :: "string \<Rightarrow> string" where
  "strip_edge_hyphen s =
     (let s1 = (case s of [] \<Rightarrow> [] | c # cs \<Rightarrow> if c = CHR ''-'' then cs else s)
      in if s1 \<noteq> [] \<and> last s1 = CHR ''-'' then butlast s1 else s1)"

definition sanitizeLabel :: "jsval \<Rightarrow> string" where
  "sanitizeLabel s =
     strip_edge_hyphen (collapse_hyphens (replace_other (replace_space_runs
       (toLowerCase (toString s)))))"

section \<open>The fields of the issue form\<close>

definition FIELD_IDS :: "string list" where
  "FIELD_IDS =
     [''severity'', ''sdk-version'', ''sdk-version-other'', ''android-version'', ''device'',
      ''gradle-version'', ''kotlin-version'', ''steps-to-reproduce'', ''expected-behavior'',
      ''actual-behavior'', ''logs'', ''additional-context'', ''confirmations'']"

fun isMissing :: "jsval \<Rightarrow> bool" where
  "isMissing JUndefined = True"
| "isMissing JNull = True"
| "isMissing (JArr xs) = (xs = [])"
| "isMissing (JStr s) = (trim s = [])"
| "isMissing (JObj kvs) =
     (case (getProp (JObj kvs) ''selected'', getProp (JObj kvs) ''unselected'') of
        (JArr sel, JArr unsel) \<Rightarrow> sel = [] \<and> unsel = []
      | _ \<Rightarrow> False)"
| "isMissing _ = False"

fun normalizeValue :: "jsval \<Rightarrow> jsval" where
  "normalizeValue (JArr xs) = JStr (join '', '' xs)"
| "normalizeValue (JObj kvs) =
     (if isArray (getProp (JObj kvs) ''selected'')
      then JObj [(''selected'', getProp (JObj kvs) ''selected''),
                 (''unselected'', getProp (JObj kvs) ''unselected'')]
      else JStr (toString (JObj kvs)))"
| "normalizeValue v = JStr (toString v)"

definition missingText :: "string \<Rightarrow> string" where
  "missingText fid = ''Field '' @ fid @ '' wasn'' @ [CHR 0x27] @ ''t entered.''"

definition valueOrMissing :: "jsval \<Rightarrow> string \<Rightarrow> jsval" where
  "valueOrMissing form fid =
     (let v = getProp form fid
      in if isMissing v then JStr (missingText fid) else normalizeValue v)"

definition fieldLog :: "jsval \<Rightarrow> jsval" where
  "fieldLog form = JObj (map (\<lambda>fid. (fid, valueOrMissing form fid)) FIELD_IDS)"

section \<open>Priority, SDK version and labels\<close>

definition severity :: "jsval \<Rightarrow> jsval" where
  "severity form =
     (if isArray (getProp form ''severity'') then first_elem (getProp form ''severity'')
      else JUndefined)"

definition isP1 :: "jsval \<Rightarrow> bool" where
  "isP1 form =
     (case severity form of
        JStr s \<Rightarrow> startsWith s ''Major functionality not working''
      | _ \<Rightarrow> False)"

definition jiraPriorityName :: "jsval \<Rightarrow> string" where
  "jiraPriorityName form = (if isP1 form then ''High'' else ''Medium'')"

definition sdkVersion :: "jsval \<Rightarrow> jsval" where
  "sdkVersion form =
     (if isArray (getProp form ''sdk-version'') then first_elem (getProp form ''sdk-version'')
      else JUndefined)"

definition sdkVersionOther :: "jsval \<Rightarrow> jsval" where
  "sdkVersionOther form = getProp form ''sdk-version-other''"

definition effectiveSdkVersion :: "jsval \<Rightarrow> jsval" where
  "effectiveSdkVersion form =
     (if sdkVersion form = JStr ''Other (specify below)''
      then orElse (sdkVersionOther form) (JStr ''Other'')
      else orElse (sdkVersion form) (JStr ''unknown''))"

text \<open>\<^verbatim>\<open>new Set(xs)\<close> keeps its elements in the order they were first added;
  \<^verbatim>\<open>Array.from\<close> reads them in that order.\<close>

definition set_add :: "'a list \<Rightarrow> 'a \<Rightarrow> 'a list" where
  "set_add s x = (if x \<in> set s then s else s @ [x])"

definition Set_from :: "'a list \<Rightarrow> 'a list" where
  "Set_from xs = foldl set_add [] xs"

text \<open>The array literal the set is built from (lines 126 to 133).\<close>

definition labelCandidates :: "jsval \<Rightarrow> jsval \<Rightarrow> jsval list \<Rightarrow> string list" where
  "labelCandidates issueNumber effVersion ghLabels =
     [''cmp'', ''android'', ''source-github'',
      ''gh-issue-'' @ toString issueNumber,
      ''sdk-'' @ sanitizeLabel effVersion]
     @ map sanitizeLabel ghLabels"

definition jiraLabels :: "jsval \<Rightarrow> jsval \<Rightarrow> jsval list \<Rightarrow> string list" where
  "jiraLabels issueNumber effVersion ghLabels =
     take 50 (Set_from (labelCandidates issueNumber effVersion ghLabels))"

section \<open>The description document\<close>

definition adfText :: "jsval \<Rightarrow> jsval" where
  "adfText t = JObj [(''type'', JStr ''text''), (''text'', JStr (toString t))]"

definition adfParagraph :: "jsval \<Rightarrow> jsval" where
  "adfParagraph t = JObj [(''type'', JStr ''paragraph''), (''content'', JArr [adfText t])]"

definition adfHeading :: "jsval \<Rightarrow> int \<Rightarrow> jsval" where
  "adfHeading t level =
     JObj [(''type'', JStr ''heading''), (''attrs'', JObj [(''level'', JNum level)]),
           (''content'', JArr [adfText t])]"

definition adfCodeBlock :: "jsval \<Rightarrow> string \<Rightarrow> jsval" where
  "adfCodeBlock code language =
     JObj [(''type'', JStr ''codeBlock''), (''attrs'', JObj [(''language'', JStr language)]),
           (''content'',
            JArr [JObj [(''type'', JStr ''text''),
                        (''text'', JStr (toString (orElse code (JStr []))))]])]"

text \<open>The last element of \<^verbatim>\<open>descriptionContent\<close> (lines 166 to 172). \<open>stringify v n\<close>
  stands for \<^verbatim>\<open>JSON.stringify(v, null, n)\<close>, with \<open>n = 0\<close> for the call without
  indentation.\<close>

definition logsBlock :: "(jsval \<Rightarrow> nat \<Rightarrow> string) \<Rightarrow> jsval \<Rightarrow> jsval" where
  "logsBlock stringify logs =
     (case logs of
        JStr s \<Rightarrow> if startsWith s ''Field '' then adfParagraph logs
                  else adfCodeBlock (JStr s) ''shell''
      | _ \<Rightarrow> adfCodeBlock (JStr (stringify logs 2)) ''shell'')"

definition fieldParagraph :: "(jsval \<Rightarrow> nat \<Rightarrow> string) \<Rightarrow> jsval \<Rightarrow> string \<Rightarrow> jsval" where
  "fieldParagraph stringify fl fid =
     adfParagraph (JStr (fid @ '': '' @
       (case getProp fl fid of JStr s \<Rightarrow> s | v \<Rightarrow> stringify v 0)))"

definition descriptionContent ::
  "(jsval \<Rightarrow> nat \<Rightarrow> string) \<Rightarrow> jsval \<Rightarrow> jsval \<Rightarrow> jsval \<Rightarrow> jsval \<Rightarrow> jsval list" where
  "descriptionContent stringify issueNumber issueAuthor issueUrl fl =
     [adfHeading (JStr ''GitHub Issue'') 2,
      adfParagraph (JStr (''#'' @ toString issueNumber @ '' by '' @ toString issueAuthor)),
      adfParagraph issueUrl,
      adfHeading (JStr ''Form Fields'') 2]
     @ map (fieldParagraph stringify fl) (filter (\<lambda>fid. fid \<noteq> ''logs'') FIELD_IDS)
     @ [adfHeading (JStr ''logs'') 2,
        logsBlock stringify (getProp fl ''logs'')]"

section \<open>The script as a whole\<close>

text \<open>
  The script runs once, top to bottom. What it reads from outside is gathered in a
  \<open>world\<close>: the environment, the files, the responses of the two HTTP services, and
  the library functions it calls (\<^verbatim>\<open>JSON.parse\<close>, \<^verbatim>\<open>JSON.stringify\<close>, \<^verbatim>\<open>Number\<close>,
  base64 encoding, \<^verbatim>\<open>parseIssue\<close> of \<^verbatim>\<open>@github/issue-parser\<close>). What it does
  to the outside is a list of events, in the order they happen. A run ends with an
  error (an uncaught exception) or normally.

  The library functions are taken as they are given: \<^verbatim>\<open>JSON.parse\<close> returns \<open>None\<close>
  where it raises a \<^verbatim>\<open>SyntaxError\<close>, \<^verbatim>\<open>fetch\<close> returns \<open>None\<close> where the request
  is rejected, the others return a value. \<open>Error s\<close> is \<^verbatim>\<open>throw new Error(s)\<close> of the
  script; the other errors are raised by the runtime: a \<^verbatim>\<open>TypeError\<close>, the
  \<^verbatim>\<open>SyntaxError\<close> of \<^verbatim>\<open>JSON.parse\<close>, a file that cannot be read, a request that is
  rejected.
\<close>

datatype error =
    Error string
  | TypeError
  | SyntaxError
  | FileError
  | NetworkError

record request =
  req_url :: string
  req_method :: string
  req_headers :: "(string \<times> string) list"
  req_body :: string

record response =
  res_ok :: bool
  res_status :: nat
  res_text :: string

datatype event =
    ReadFileSync string
  | ConsoleLog string
  | JiraFetch request
  | GhFetch request

record world =
  env :: "string \<rightharpoonup> string"
  files :: "string \<rightharpoonup> string"
  JSON_parse :: "string \<Rightarrow> jsval option"
  JSON_stringify :: "jsval \<Rightarrow> nat \<Rightarrow> string"
  Number :: "jsval \<Rightarrow> jsval"
  base64 :: "string \<Rightarrow> string"
  parseIssue :: "jsval \<Rightarrow> string \<Rightarrow> jsval"
  fetch :: "request \<Rightarrow> response option"

type_synonym 'a io = "event list \<times> (error + 'a)"

text \<open>Sequencing: an error ends the run, and the events so far stay.\<close>

definition andThen :: "error + 'a \<Rightarrow> ('a \<Rightarrow> error + 'b) \<Rightarrow> error + 'b" where
  "andThen r f = (case r of Inl e \<Rightarrow> Inl e | Inr a \<Rightarrow> f a)"

definition seq :: "'a io \<Rightarrow> ('a \<Rightarrow> 'b io) \<Rightarrow> 'b io" where
  "seq m f =
     (case snd m of
        Inl e \<Rightarrow> (fst m, Inl e)
      | Inr a \<Rightarrow> (fst m @ fst (f a), snd (f a)))"

definition pure :: "error + 'a \<Rightarrow> 'a io" where
  "pure r = ([], r)"

definition emit :: "event \<Rightarrow> unit io" where
  "emit ev = ([ev], Inr ())"

subsection \<open>Configuration (lines 4 to 20)\<close>

definition missingEnvMessage :: "string \<Rightarrow> string" where
  "missingEnvMessage name = ''Missing required env var: '' @ name"

definition requiredEnv :: "(string \<rightharpoonup> string) \<Rightarrow> string \<Rightarrow> error + string" where
  "requiredEnv e name =
     (case e name of
        None \<Rightarrow> Inl (Error (missingEnvMessage name))
      | Some v \<Rightarrow> if v = [] then Inl (Error (missingEnvMessage name)) else Inr v)"

text \<open>\<^verbatim>\<open>.replace(/\/$/, "")\<close>\<close>

definition strip_trailing_slash :: "string \<Rightarrow> string" where
  "strip_trailing_slash s = (if s \<noteq> [] \<and> last s = CHR ''/'' then butlast s else s)"

record config =
  ISSUE_TEMPLATE_PATH :: string
  JIRA_BASE_URL :: string
  JIRA_EMAIL :: string
  JIRA_API_TOKEN :: string
  JIRA_PROJECT_KEY :: string
  JIRA_ISSUE_TYPE :: string
  GITHUB_TOKEN :: string

definition loadConfig :: "(string \<rightharpoonup> string) \<Rightarrow> error + config" where
  "loadConfig e =
     andThen (requiredEnv e ''ISSUE_TEMPLATE_PATH'') (\<lambda>template.
     andThen (requiredEnv e ''JIRA_BASE_URL'') (\<lambda>base.
     andThen (requiredEnv e ''JIRA_EMAIL'') (\<lambda>email.
     andThen (requiredEnv e ''JIRA_API_TOKEN'') (\<lambda>token.
     andThen (requiredEnv e ''GITHUB_TOKEN'') (\<lambda>gh.
       Inr \<lparr> ISSUE_TEMPLATE_PATH = template,
             JIRA_BASE_URL = strip_trailing_slash base,
             JIRA_EMAIL = email,
             JIRA_API_TOKEN = token,
             JIRA_PROJECT_KEY = (case e ''JIRA_PROJECT_KEY'' of None \<Rightarrow> ''SDK'' | Some k \<Rightarrow> k),
             JIRA_ISSUE_TYPE = (case e ''JIRA_ISSUE_TYPE'' of None \<Rightarrow> ''Bug'' | Some t \<Rightarrow> t),
             GITHUB_TOKEN = gh \<rparr>)))))"

subsection \<open>The event and the issue (lines 21 to 42)\<close>

text \<open>\<^verbatim>\<open>fs.readFileSync(path, "utf8")\<close>: a path that is \<^verbatim>\<open>undefined\<close> is refused with
  a \<^verbatim>\<open>TypeError\<close> before the file system is touched.\<close>

definition readFileSync :: "world \<Rightarrow> string option \<Rightarrow> string io" where
  "readFileSync w p =
     (case p of
        None \<Rightarrow> ([], Inl TypeError)
      | Some path \<Rightarrow>
          ([ReadFileSync path],
           case files w path of None \<Rightarrow> Inl FileError | Some s \<Rightarrow> Inr s))"

definition noIssueMessage :: string where
  "noIssueMessage = ''No issue in event payload.''"

definition readIssue :: "world \<Rightarrow> jsval io" where
  "readIssue w =
     seq (readFileSync w (env w ''GITHUB_EVENT_PATH'')) (\<lambda>txt.
       pure (case JSON_parse w txt of
               None \<Rightarrow> Inl SyntaxError
             | Some GH_EVENT \<Rightarrow>
                 if nullish GH_EVENT then Inl TypeError
                 else if \<not> truthy (getProp GH_EVENT ''issue'') then Inl (Error noIssueMessage)
                 else Inr (getProp GH_EVENT ''issue'')))"

text \<open>\<^verbatim>\<open>s.split("/")\<close>\<close>

fun split_slash :: "string \<Rightarrow> string list" where
  "split_slash [] = [[]]"
| "split_slash (c # cs) =
     (if c = CHR ''/'' then [] # split_slash cs
      else (case split_slash cs of [] \<Rightarrow> [[c]] | p # ps \<Rightarrow> (c # p) # ps))"

text \<open>\<^verbatim>\<open>xs[i]\<close> in a destructuring pattern: \<^verbatim>\<open>undefined\<close> past the end.\<close>

definition elem_or_undefined :: "string list \<Rightarrow> nat \<Rightarrow> jsval" where
  "elem_or_undefined xs i = (if i < length xs then JStr (xs ! i) else JUndefined)"

text \<open>\<^verbatim>\<open>(issue.labels ?? []).map(l => l.name).filter(Boolean)\<close>: a value without
  \<^verbatim>\<open>map\<close>, and a label that is \<^verbatim>\<open>null\<close>, raise a \<^verbatim>\<open>TypeError\<close>.\<close>

definition ghLabels :: "jsval \<Rightarrow> error + jsval list" where
  "ghLabels issue =
     (case orElse (getProp issue ''labels'') (JArr []) of
        JArr ls \<Rightarrow>
          if list_ex nullish ls then Inl TypeError
          else Inr (filter truthy (map (\<lambda>l. getProp l ''name'') ls))
      | _ \<Rightarrow> Inl TypeError)"

definition issueAuthor :: "jsval \<Rightarrow> jsval" where
  "issueAuthor issue =
     orElse (if nullish (getProp issue ''user'') then JUndefined
             else getProp (getProp issue ''user'') ''login'')
            (JStr ''unknown'')"

subsection \<open>The Jira payload (lines 175 to 193)\<close>

definition jiraPayload ::
  "world \<Rightarrow> config \<Rightarrow> string \<Rightarrow> jsval \<Rightarrow> jsval list \<Rightarrow> jsval \<Rightarrow> jsval" where
  "jiraPayload w cfg repoFull issue labels form =
     JObj [
       (''fields'', JObj [
          (''project'', JObj [(''key'', JStr (JIRA_PROJECT_KEY cfg))]),
          (''issuetype'', JObj [(''name'', JStr (JIRA_ISSUE_TYPE cfg))]),
          (''summary'',
             JStr (trim (''[Android SDK] '' @ toString (orElse (getProp issue ''title'') (JStr []))))),
          (''priority'', JObj [(''name'', JStr (jiraPriorityName form))]),
          (''labels'',
             JArr (map JStr (jiraLabels (getProp issue ''number'') (effectiveSdkVersion form) labels))),
          (''description'', JObj [
             (''type'', JStr ''doc''),
             (''version'', JNum 1),
             (''content'',
                JArr (descriptionContent (JSON_stringify w) (getProp issue ''number'')
                        (issueAuthor issue) (orElse (getProp issue ''html_url'') (JStr []))
                        (fieldLog form)))])]),
       (''properties'', JArr [
          JObj [(''key'', JStr ''github.issue.url''),
                (''value'', orElse (getProp issue ''html_url'') (JStr []))],
          JObj [(''key'', JStr ''github.issue.number''),
                (''value'', Number w (getProp issue ''number''))],
          JObj [(''key'', JStr ''github.repo''), (''value'', JStr repoFull)]])]"

subsection \<open>The two requests (lines 196 to 252)\<close>

definition jiraFailedMessage :: "nat \<Rightarrow> string \<Rightarrow> string" where
  "jiraFailedMessage st body = ''Jira create issue failed ('' @ digits st @ ''): '' @ body"

definition ghFailedMessage :: "nat \<Rightarrow> string \<Rightarrow> string" where
  "ghFailedMessage st body = ''GitHub comment failed ('' @ digits st @ ''): '' @ body"

definition jiraRequest :: "world \<Rightarrow> config \<Rightarrow> jsval \<Rightarrow> request" where
  "jiraRequest w cfg payload =
     \<lparr> req_url = JIRA_BASE_URL cfg @ ''/rest/api/3/issue'',
       req_method = ''POST'',
       req_headers =
         [(''Authorization'', ''Basic '' @ base64 w (JIRA_EMAIL cfg @ '':'' @ JIRA_API_TOKEN cfg)),
          (''Accept'', ''application/json''),
          (''Content-Type'', ''application/json'')],
       req_body = JSON_stringify w payload 0 \<rparr>"

definition jiraCreateIssue :: "world \<Rightarrow> config \<Rightarrow> jsval \<Rightarrow> jsval io" where
  "jiraCreateIssue w cfg payload =
     seq (emit (JiraFetch (jiraRequest w cfg payload))) (\<lambda>_.
       pure (case fetch w (jiraRequest w cfg payload) of
               None \<Rightarrow> Inl NetworkError
             | Some res \<Rightarrow>
                 if \<not> res_ok res
                 then Inl (Error (jiraFailedMessage (res_status res) (res_text res)))
                 else (case JSON_parse w (res_text res) of
                         None \<Rightarrow> Inl SyntaxError
                       | Some created \<Rightarrow> Inr created)))"

definition ghRequest :: "world \<Rightarrow> config \<Rightarrow> jsval \<Rightarrow> jsval \<Rightarrow> jsval \<Rightarrow> string \<Rightarrow> request" where
  "ghRequest w cfg owner repo issueNumber body =
     \<lparr> req_url = ''https://api.github.com/repos/'' @ toString owner @ ''/'' @ toString repo
                  @ ''/issues/'' @ toString issueNumber @ ''/comments'',
       req_method = ''POST'',
       req_headers =
         [(''Authorization'', ''Bearer '' @ GITHUB_TOKEN cfg),
          (''Accept'', ''application/vnd.github+json'')],
       req_body = JSON_stringify w (JObj [(''body'', JStr body)]) 0 \<rparr>"

definition ghCreateComment ::
  "world \<Rightarrow> config \<Rightarrow> jsval \<Rightarrow> jsval \<Rightarrow> jsval \<Rightarrow> string \<Rightarrow> unit io" where
  "ghCreateComment w cfg owner repo issueNumber body =
     seq (emit (GhFetch (ghRequest w cfg owner repo issueNumber body))) (\<lambda>_.
       pure (case fetch w (ghRequest w cfg owner repo issueNumber body) of
               None \<Rightarrow> Inl NetworkError
             | Some res \<Rightarrow>
                 if \<not> res_ok res
                 then Inl (Error (ghFailedMessage (res_status res) (res_text res)))
                 else Inr ()))"

text \<open>The fixed texts. Their three characters beyond Latin-1 (the check mark, the dash
  and the apostrophe) are written as their UTF-8 bytes.\<close>

definition ticketCreated :: "string \<Rightarrow> string \<Rightarrow> string" where
  "ticketCreated jiraKey jiraBrowseUrl =
     [CHR 0xE2, CHR 0x9C, CHR 0x85] @ '' Created internal Jira ticket: **'' @ jiraKey @ ''**''
     @ [CHR 0x0A, CHR 0x0A] @ jiraBrowseUrl @ [CHR 0x0A, CHR 0x0A]
     @ ''<!-- jira-key:'' @ jiraKey @ '' -->''"

definition commentBody :: string where
  "commentBody =
     ''Thanks for the report '' @ [CHR 0xE2, CHR 0x80, CHR 0x94] @ '' we''
     @ [CHR 0xE2, CHR 0x80, CHR 0x99] @ ''ve received it and will triage it internally.''
     @ [CHR 0x0A, CHR 0x0A]
     @ ''Our SDK engineering team has been notified and will follow this issue for updates.''
     @ [CHR 0x0A, CHR 0x0A]
     @ ''Please keep updates here (repro steps, logs, screenshots, or a minimal repro repo) so we can move faster.''"

subsection \<open>The run\<close>

text \<open>Lines 21 to 122: everything between the configuration and the first request.
  The result is what the requests need.\<close>

record job =
  job_payload :: jsval
  job_owner :: jsval
  job_repo :: jsval
  job_issueNumber :: jsval

definition prepare :: "world \<Rightarrow> config \<Rightarrow> job io" where
  "prepare w cfg =
     seq (readIssue w) (\<lambda>issue.
     seq (pure (case env w ''GITHUB_REPOSITORY'' of
                  None \<Rightarrow> Inl TypeError
                | Some repoFull \<Rightarrow> Inr repoFull)) (\<lambda>repoFull.
     seq (pure (ghLabels issue)) (\<lambda>labels.
     seq (readFileSync w (Some (ISSUE_TEMPLATE_PATH cfg))) (\<lambda>templateYaml.
     seq (pure (if nullish (parseIssue w (orElse (getProp issue ''body'') (JStr [])) templateYaml)
                then Inl TypeError
                else Inr (parseIssue w (orElse (getProp issue ''body'') (JStr [])) templateYaml)))
       (\<lambda>form.
     seq (emit (ConsoleLog ''=== Parsed Issue Form Fields (by ID) ==='')) (\<lambda>_.
     seq (emit (ConsoleLog (JSON_stringify w (fieldLog form) 2))) (\<lambda>_.
       pure (Inr \<lparr> job_payload = jiraPayload w cfg repoFull issue labels form,
                    job_owner = elem_or_undefined (split_slash repoFull) 0,
                    job_repo = elem_or_undefined (split_slash repoFull) 1,
                    job_issueNumber = getProp issue ''number'' \<rparr>))))))))"

text \<open>Lines 216 to 254: the ticket, then the comment.\<close>

definition deliver :: "world \<Rightarrow> config \<Rightarrow> job \<Rightarrow> unit io" where
  "deliver w cfg j =
     seq (jiraCreateIssue w cfg (job_payload j)) (\<lambda>created.
     seq (pure (if nullish created then Inl TypeError
                else Inr (toString (getProp created ''key'')))) (\<lambda>jiraKey.
     seq (emit (ConsoleLog (''Created Jira issue: '' @ jiraKey @ '' (''
                  @ JIRA_BASE_URL cfg @ ''/browse/'' @ jiraKey @ '')''))) (\<lambda>_.
     seq (emit (ConsoleLog (ticketCreated jiraKey
                  (JIRA_BASE_URL cfg @ ''/browse/'' @ jiraKey)))) (\<lambda>_.
     seq (ghCreateComment w cfg (job_owner j) (job_repo j) (job_issueNumber j) commentBody) (\<lambda>_.
       emit (ConsoleLog ''Commented Jira link back on GitHub issue.''))))))"

definition run :: "world \<Rightarrow> unit io" where
  "run w =
     seq (pure (loadConfig (env w))) (\<lambda>cfg.
     seq (prepare w cfg) (\<lambda>j.
       deliver w cfg j))"

section \<open>Notions used to state the properties\<close>

subsection \<open>The specification's wording of label sanitisation\<close>

text \<open>
  The specification describes \<^verbatim>\<open>sanitizeLabel\<close> in five steps: lowercase; collapse
  runs of white space into a single hyphen; replace any character outside
  \<^verbatim>\<open>[a-z0-9-_]\<close> with a hyphen; collapse repeated hyphens into one; strip leading
  and trailing hyphens. The definitions below follow these words, not the regular
  expressions of the script: a run is collapsed by dropping every character of it
  that has a successor in the run, and stripping removes all hyphens at both ends.
\<close>

fun spec_collapse_runs :: "(char \<Rightarrow> bool) \<Rightarrow> string \<Rightarrow> string" where
  "spec_collapse_runs p [] = []"
| "spec_collapse_runs p [c] = [if p c then CHR ''-'' else c]"
| "spec_collapse_runs p (c # d # cs) =
     (if p c \<and> p d then spec_collapse_runs p (d # cs)
      else (if p c then CHR ''-'' else c) # spec_collapse_runs p (d # cs))"

definition spec_strip_hyphens :: "string \<Rightarrow> string" where
  "spec_strip_hyphens s =
     rev (dropWhile (\<lambda>d. d = CHR ''-'') (rev (dropWhile (\<lambda>d. d = CHR ''-'') s)))"

definition spec_sanitizeLabel :: "string \<Rightarrow> string" where
  "spec_sanitizeLabel s =
     spec_strip_hyphens (spec_collapse_runs (\<lambda>d. d = CHR ''-'')
       (map (\<lambda>c. if label_char c then c else CHR ''-'')
         (spec_collapse_runs is_space (map lower_char s))))"

text \<open>A string without two hyphens in a row.\<close>

fun single_hyphens :: "string \<Rightarrow> bool" where
  "single_hyphens [] = True"
| "single_hyphens [c] = True"
| "single_hyphens (c # d # cs) = (\<not> (c = CHR ''-'' \<and> d = CHR ''-'') \<and> single_hyphens (d # cs))"

subsection \<open>Order of first occurrence\<close>

text \<open>The position at which \<open>x\<close> first occurs in \<open>xs\<close> (the length of \<open>xs\<close> when it
  does not occur).\<close>

definition first_index :: "'a list \<Rightarrow> 'a \<Rightarrow> nat" where
  "first_index xs x = length (takeWhile (\<lambda>y. y \<noteq> x) xs)"

subsection \<open>The variables read through \<^verbatim>\<open>requiredEnv\<close>, in the order of lines 10 to 20\<close>

definition REQUIRED_ENV :: "string list" where
  "REQUIRED_ENV =
     [''ISSUE_TEMPLATE_PATH'', ''JIRA_BASE_URL'', ''JIRA_EMAIL'', ''JIRA_API_TOKEN'',
      ''GITHUB_TOKEN'']"

definition is_set :: "(string \<rightharpoonup> string) \<Rightarrow> string \<Rightarrow> bool" where
  "is_set e name = (case e name of None \<Rightarrow> False | Some v \<Rightarrow> v \<noteq> [])"

fun is_fetch :: "event \<Rightarrow> bool" where
  "is_fetch (JiraFetch _) = True"
| "is_fetch (GhFetch _) = True"
| "is_fetch _ = False"

fun is_comment :: "event \<Rightarrow> bool" where
  "is_comment (GhFetch _) = True"
| "is_comment _ = False"

text \<open>Some event of the list is a request to create the Jira issue that was answered
  with success: the ticket exists.\<close>

fun jira_succeeded :: "world \<Rightarrow> event \<Rightarrow> bool" where
  "jira_succeeded w (JiraFetch rq) =
     (case fetch w rq of None \<Rightarrow> False | Some res \<Rightarrow> res_ok res)"
| "jira_succeeded w _ = False"

definition ticket_created :: "world \<Rightarrow> event list \<Rightarrow> bool" where
  "ticket_created w evs = list_ex (jira_succeeded w) evs"

text \<open>A step that sends no request and, when it fails, fails with one of the errors
  raised before the first request.\<close>

definition quiet :: "'a io \<Rightarrow> bool" where
  "quiet m =
     (list_all (\<lambda>ev. \<not> is_fetch ev) (fst m) \<and>
      (case snd m of
         Inl e \<Rightarrow> e \<in> set [TypeError, SyntaxError, FileError, Error noIssueMessage]
       | Inr _ \<Rightarrow> True))"

subsection \<open>Example inputs\<close>

definition example_env :: "string \<rightharpoonup> string" where
  "example_env =
     map_of [(''ISSUE_TEMPLATE_PATH'', ''bug.yml''),
             (''JIRA_BASE_URL'', ''https://jira.example/''),
             (''JIRA_EMAIL'', ''bot@example.com''),
             (''JIRA_API_TOKEN'', ''secret''),
             (''GITHUB_TOKEN'', ''ghs''),
             (''GITHUB_EVENT_PATH'', ''event.json''),
             (''GITHUB_REPOSITORY'', ''osano/sdk'')]"

definition example_issue :: jsval where
  "example_issue =
     JObj [(''number'', JNum 42), (''title'', JStr ''Crash on launch''),
           (''body'', JStr ''### Severity''), (''html_url'', JStr ''https://github.example/42''),
           (''user'', JObj [(''login'', JStr ''alice'')]),
           (''labels'', JArr [JObj [(''name'', JStr ''Bug Report'')]])]"

definition example_form :: jsval where
  "example_form =
     JObj [(''severity'', JArr [JStr ''Major functionality not working'']),
           (''sdk-version'', JArr [JStr ''Other (specify below)'']),
           (''sdk-version-other'', JStr ''14.2.0-beta''),
           (''device'', JStr ''   ''),
           (''logs'', JStr ''stacktrace...'')]"

text \<open>A world around the example: \<open>e\<close> is the environment, \<open>jira\<close> and \<open>gh\<close> are
  what the two services answer.\<close>

definition example_world ::
  "(string \<rightharpoonup> string) \<Rightarrow> response option \<Rightarrow> response option \<Rightarrow> world" where
  "example_world e jira gh =
     \<lparr> env = e,
       files = map_of [(''event.json'', ''event''), (''bug.yml'', ''template'')],
       JSON_parse = (\<lambda>s. if s = ''event'' then Some (JObj [(''issue'', example_issue)])
                          else if s = ''created'' then Some (JObj [(''key'', JStr ''SDK-7'')])
                          else None),
       JSON_stringify = (\<lambda>v n. ''json''),
       Number = (\<lambda>v. v),
       base64 = (\<lambda>s. s),
       parseIssue = (\<lambda>body template. example_form),
       fetch = (\<lambda>rq. if req_url rq = ''https://jira.example/rest/api/3/issue'' then jira
                       else gh) \<rparr>"

definition labels60 :: "jsval list" where
  "labels60 = map (\<lambda>i. JStr (''L'' @ digits i)) [0..<60]"

section \<open>Properties\<close>

subsection \<open>Sets in insertion order and the cap of 50\<close>

lemma foldl_set_add_set: "set (foldl set_add acc xs) = set acc \<union> set xs"
  by (induction xs arbitrary: acc) (auto simp: set_add_def)

lemma foldl_set_add_distinct: "distinct acc \<Longrightarrow> distinct (foldl set_add acc xs)"
  by (induction xs arbitrary: acc) (auto simp: set_add_def)

lemma foldl_set_add_fresh:
  "distinct xs \<Longrightarrow> set xs \<inter> set acc = {} \<Longrightarrow> foldl set_add acc xs = acc @ xs"
  by (induction xs arbitrary: acc) (auto simp: set_add_def)

lemma Set_from_set: "set (Set_from xs) = set xs"
  by (simp add: Set_from_def foldl_set_add_set)

lemma Set_from_distinct: "distinct (Set_from xs)"
  by (simp add: Set_from_def foldl_set_add_distinct)

lemma Set_from_fresh: "distinct xs \<Longrightarrow> Set_from xs = xs"
  using foldl_set_add_fresh [of xs "[]"] by (simp add: Set_from_def)

lemma Set_from_snoc: "Set_from (xs @ [x]) = set_add (Set_from xs) x"
  by (simp add: Set_from_def)

lemma first_index_less: "x \<in> set xs \<Longrightarrow> first_index xs x < length xs"
  unfolding first_index_def by (induction xs) auto

lemma first_index_append_in: "x \<in> set xs \<Longrightarrow> first_index (xs @ ys) x = first_index xs x"
  unfolding first_index_def by (induction xs) auto

lemma first_index_append_new: "x \<notin> set xs \<Longrightarrow> first_index (xs @ [x]) x = length xs"
  unfolding first_index_def by (induction xs) auto

lemma Set_from_sorted:
  "sorted_wrt (\<lambda>a b. first_index xs a < first_index xs b) (Set_from xs)"
proof (induction xs rule: rev_induct)
  case Nil
  show ?case by (simp add: Set_from_def)
next
  case (snoc x xs)
  have mono: "sorted_wrt (\<lambda>a b. first_index (xs @ [x]) a < first_index (xs @ [x]) b) (Set_from xs)"
  proof (rule sorted_wrt_mono_rel [OF _ snoc.IH])
    fix a b
    assume "a \<in> set (Set_from xs)" "b \<in> set (Set_from xs)"
      and "first_index xs a < first_index xs b"
    then show "first_index (xs @ [x]) a < first_index (xs @ [x]) b"
      by (simp add: Set_from_set first_index_append_in)
  qed
  show ?case
  proof (cases "x \<in> set xs")
    case True
    then show ?thesis using mono by (simp add: Set_from_snoc set_add_def Set_from_set)
  next
    case False
    then have "\<forall>a \<in> set (Set_from xs). first_index (xs @ [x]) a < first_index (xs @ [x]) x"
      by (simp add: Set_from_set first_index_append_in first_index_append_new first_index_less)
    with False mono show ?thesis
      by (simp add: Set_from_snoc set_add_def Set_from_set sorted_wrt_append)
  qed
qed


lemma fixed_labels_distinct:
  "distinct [''cmp'', ''android'', ''source-github'', ''gh-issue-'' @ x, ''sdk-'' @ y]"
  by simp

lemma labelCandidates_fresh:
  assumes "distinct (map sanitizeLabel gh)"
    and "set (map sanitizeLabel gh) \<inter>
         {''cmp'', ''android'', ''source-github'', ''gh-issue-'' @ toString n,
          ''sdk-'' @ sanitizeLabel v} = {}"
  shows "jiraLabels n v gh =
         [''cmp'', ''android'', ''source-github'', ''gh-issue-'' @ toString n,
          ''sdk-'' @ sanitizeLabel v] @ take 45 (map sanitizeLabel gh)"
proof -
  have "distinct (labelCandidates n v gh)"
    unfolding labelCandidates_def distinct_append
    using assms fixed_labels_distinct [of "toString n" "sanitizeLabel v"] by auto
  then have "Set_from (labelCandidates n v gh) = labelCandidates n v gh"
    by (rule Set_from_fresh)
  then show ?thesis
    by (simp add: jiraLabels_def) (simp add: labelCandidates_def)
qed

lemma labels60_sanitized:
  "map sanitizeLabel labels60 = map (\<lambda>i. ''l'' @ digits i) [0..<60]"
  by code_simp

lemma labels60_distinct: "distinct (map sanitizeLabel labels60)"
  unfolding labels60_sanitized by code_simp

lemma labels60_disjoint:
  "set (map sanitizeLabel labels60) \<inter>
     {''cmp'', ''android'', ''source-github'', ''gh-issue-'' @ toString (JNum 42),
      ''sdk-'' @ sanitizeLabel (JStr ''1.0'')} = {}"
  unfolding labels60_sanitized by code_simp

text \<open>
  Claim C1, as amended. With 60 GitHub labels whose sanitised names differ from each
  other and from the five labels the script always adds (\<^verbatim>\<open>cmp\<close>, \<^verbatim>\<open>android\<close>,
  \<^verbatim>\<open>source-github\<close>, \<^verbatim>\<open>gh-issue-N\<close>, \<^verbatim>\<open>sdk-V\<close>), the Jira label list has exactly
  50 entries: those five, then the first 45 sanitised GitHub labels in their order.
\<close>

theorem jiraLabels_sixty:
  assumes "length gh = 60" and "distinct (map sanitizeLabel gh)"
    and "set (map sanitizeLabel gh) \<inter>
         {''cmp'', ''android'', ''source-github'', ''gh-issue-'' @ toString n,
          ''sdk-'' @ sanitizeLabel v} = {}"
  shows "length (jiraLabels n v gh) = 50 \<and>
         jiraLabels n v gh =
           [''cmp'', ''android'', ''source-github'', ''gh-issue-'' @ toString n,
            ''sdk-'' @ sanitizeLabel v] @ take 45 (map sanitizeLabel gh)"
  using assms(1) labelCandidates_fresh [OF assms(2,3)] by simp

theorem jiraLabels_sixty_witness:
  "length labels60 = 60 \<and> distinct (map sanitizeLabel labels60) \<and>
   length (jiraLabels (JNum 42) (JStr ''1.0'') labels60) = 50 \<and>
   jiraLabels (JNum 42) (JStr ''1.0'') labels60 =
     [''cmp'', ''android'', ''source-github'', ''gh-issue-'' @ toString (JNum 42),
      ''sdk-'' @ sanitizeLabel (JStr ''1.0'')] @ take 45 (map sanitizeLabel labels60)"
proof -
  have l: "length labels60 = 60" by (simp add: labels60_def)
  show ?thesis
    using l labels60_distinct jiraLabels_sixty [OF l labels60_distinct labels60_disjoint]
    by simp
qed

text \<open>
  Claim C1 as the specification words it (four fixed labels and the first 46 GitHub
  labels) fails: for issue 42, SDK version \<^verbatim>\<open>1.0\<close> and the 60 labels \<^verbatim>\<open>L0\<close> to
  \<^verbatim>\<open>L59\<close>, the list has 50 entries and the 46th GitHub label is not among them.
\<close>

theorem jiraLabels_sixty_counterexample:
  "length labels60 = 60 \<and> distinct (map sanitizeLabel labels60) \<and>
   set (map sanitizeLabel labels60) \<inter>
     {''cmp'', ''android'', ''source-github'', ''gh-issue-'' @ toString (JNum 42),
      ''sdk-'' @ sanitizeLabel (JStr ''1.0'')} = {} \<and>
   length (jiraLabels (JNum 42) (JStr ''1.0'') labels60) = 50 \<and>
   sanitizeLabel (labels60 ! 45) \<notin> set (jiraLabels (JNum 42) (JStr ''1.0'') labels60)"
proof -
  have l: "length labels60 = 60" by (simp add: labels60_def)
  have j: "jiraLabels (JNum 42) (JStr ''1.0'') labels60 =
     [''cmp'', ''android'', ''source-github'', ''gh-issue-'' @ toString (JNum 42),
      ''sdk-'' @ sanitizeLabel (JStr ''1.0'')] @ take 45 (map sanitizeLabel labels60)"
    by (rule labelCandidates_fresh [OF labels60_distinct labels60_disjoint])
  have m: "map sanitizeLabel labels60 ! 45 \<notin>
     set ([''cmp'', ''android'', ''source-github'', ''gh-issue-'' @ toString (JNum 42),
      ''sdk-'' @ sanitizeLabel (JStr ''1.0'')] @ take 45 (map sanitizeLabel labels60))"
    unfolding labels60_sanitized by code_simp
  have "sanitizeLabel (labels60 ! 45) = map sanitizeLabel labels60 ! 45"
    using l by simp
  with m j have "sanitizeLabel (labels60 ! 45) \<notin> set (jiraLabels (JNum 42) (JStr ''1.0'') labels60)"
    by simp
  moreover have "length (jiraLabels (JNum 42) (JStr ''1.0'') labels60) = 50"
    using l by (simp add: j)
  ultimately show ?thesis
    using l labels60_distinct labels60_disjoint by blast
qed

subsection \<open>The label list\<close>

lemma jiraLabels_dropped:
  assumes "x \<in> set (labelCandidates n v gh)" and "x \<notin> set (jiraLabels n v gh)"
  shows "x \<in> set (drop 50 (Set_from (labelCandidates n v gh)))"
proof -
  let ?u = "Set_from (labelCandidates n v gh)"
  have "set ?u = set (take 50 ?u) \<union> set (drop 50 ?u)"
    by (metis append_take_drop_id set_append)
  with assms show ?thesis by (simp add: Set_from_set jiraLabels_def)
qed

lemma jiraLabels_full:
  assumes "x \<in> set (labelCandidates n v gh)" and "x \<notin> set (jiraLabels n v gh)"
  shows "length (jiraLabels n v gh) = 50"
proof -
  from jiraLabels_dropped [OF assms]
  have "50 < length (Set_from (labelCandidates n v gh))"
    by (cases "50 < length (Set_from (labelCandidates n v gh))") auto
  then show ?thesis by (simp add: jiraLabels_def)
qed

lemma jiraLabels_before:
  assumes "x \<in> set (labelCandidates n v gh)" and "x \<notin> set (jiraLabels n v gh)"
    and "y \<in> set (jiraLabels n v gh)"
  shows "first_index (labelCandidates n v gh) y < first_index (labelCandidates n v gh) x"
proof -
  let ?c = "labelCandidates n v gh"
  let ?u = "Set_from ?c"
  have "sorted_wrt (\<lambda>a b. first_index ?c a < first_index ?c b) (take 50 ?u @ drop 50 ?u)"
    using Set_from_sorted [of ?c] by simp
  then show ?thesis
    unfolding sorted_wrt_append
    using jiraLabels_dropped [OF assms(1,2)] assms(3) by (simp add: jiraLabels_def)
qed

text \<open>
  Claim C4. For every issue number, effective SDK version and list of GitHub label
  names, the Jira label list has no duplicates, has at most 50 entries, holds only
  candidates, lists them in the order of their first occurrence among the
  candidates, and leaves a candidate out only when the list is full and the
  candidate first occurs after every label kept.
\<close>

theorem jiraLabels_invariant:
  "distinct (jiraLabels n v gh) \<and>
   length (jiraLabels n v gh) \<le> 50 \<and>
   set (jiraLabels n v gh) \<subseteq> set (labelCandidates n v gh) \<and>
   sorted_wrt (\<lambda>a b. first_index (labelCandidates n v gh) a
                      < first_index (labelCandidates n v gh) b) (jiraLabels n v gh) \<and>
   (\<forall>x \<in> set (labelCandidates n v gh). x \<notin> set (jiraLabels n v gh) \<longrightarrow>
      length (jiraLabels n v gh) = 50 \<and>
      (\<forall>y \<in> set (jiraLabels n v gh).
         first_index (labelCandidates n v gh) y < first_index (labelCandidates n v gh) x))"
proof -
  have 1: "distinct (jiraLabels n v gh)"
    by (simp add: jiraLabels_def Set_from_distinct)
  have 2: "length (jiraLabels n v gh) \<le> 50"
    by (simp add: jiraLabels_def)
  have 3: "set (jiraLabels n v gh) \<subseteq> set (labelCandidates n v gh)"
    using set_take_subset [of 50 "Set_from (labelCandidates n v gh)"]
    by (simp add: jiraLabels_def Set_from_set)
  have 4: "sorted_wrt (\<lambda>a b. first_index (labelCandidates n v gh) a
                      < first_index (labelCandidates n v gh) b) (jiraLabels n v gh)"
    unfolding jiraLabels_def by (rule sorted_wrt_take [OF Set_from_sorted])
  from 1 2 3 4 jiraLabels_full [of _ n v gh] jiraLabels_before [of _ n v gh]
  show ?thesis by blast
qed

theorem jiraLabels_invariant_witness:
  "jiraLabels (JNum 42) (JStr ''1.0'') [JStr ''Bug Report'', JStr ''CMP'', JStr ''bug  report'']
     = [''cmp'', ''android'', ''source-github'', ''gh-issue-42'', ''sdk-1-0'', ''bug-report''] \<and>
   distinct (jiraLabels (JNum 42) (JStr ''1.0'') [JStr ''Bug Report'', JStr ''CMP'', JStr ''bug  report'']) \<and>
   length (jiraLabels (JNum 42) (JStr ''1.0'') [JStr ''Bug Report'', JStr ''CMP'', JStr ''bug  report'']) \<le> 50"
proof -
  have "jiraLabels (JNum 42) (JStr ''1.0'') [JStr ''Bug Report'', JStr ''CMP'', JStr ''bug  report'']
     = [''cmp'', ''android'', ''source-github'', ''gh-issue-42'', ''sdk-1-0'', ''bug-report'']"
    by code_simp
  with jiraLabels_invariant [of "JNum 42" "JStr ''1.0''"
      "[JStr ''Bug Report'', JStr ''CMP'', JStr ''bug  report'']"]
  show ?thesis by simp
qed

subsection \<open>Fields, priority and SDK version\<close>

lemma startsWith_iff: "startsWith s p \<longleftrightarrow> (\<exists>t. s = p @ t)"
  unfolding startsWith_def
  by (metis append_eq_conv_conj append_take_drop_id)

text \<open>
  Claim C6. The priority is \<^verbatim>\<open>High\<close> exactly when the severity field is an array
  whose first element is a string that starts with
  \<^verbatim>\<open>Major functionality not working\<close>; in every other case it is \<^verbatim>\<open>Medium\<close>.
\<close>

theorem jiraPriorityName_rule:
  "jiraPriorityName form =
     (if \<exists>s rest t. getProp form ''severity'' = JArr (JStr s # rest) \<and>
                     s = ''Major functionality not working'' @ t
      then ''High'' else ''Medium'')"
proof (cases "getProp form ''severity''")
  case (JArr xs)
  show ?thesis
  proof (cases xs)
    case Nil
    with JArr show ?thesis by (simp add: jiraPriorityName_def isP1_def severity_def)
  next
    case (Cons x rest)
    with JArr show ?thesis
      by (cases x) (simp_all add: jiraPriorityName_def isP1_def severity_def startsWith_iff)
  qed
qed (simp_all add: jiraPriorityName_def isP1_def severity_def)

theorem jiraPriorityName_rule_witness:
  "jiraPriorityName example_form = ''High'' \<and>
   jiraPriorityName (JObj [(''severity'', JArr [JStr ''Minor issue'' ])]) = ''Medium'' \<and>
   jiraPriorityName (JObj [(''severity'', JStr ''Major functionality not working'')]) = ''Medium'' \<and>
   jiraPriorityName (JObj []) = ''Medium''"
proof -
  have g: "getProp example_form ''severity'' = JArr [JStr ''Major functionality not working'']"
    by (simp add: example_form_def)
  have a: "jiraPriorityName example_form = ''High''"
    by (subst jiraPriorityName_rule) (simp add: g)
  have b: "jiraPriorityName (JObj [(''severity'', JArr [JStr ''Minor issue'' ])]) = ''Medium''"
    by (subst jiraPriorityName_rule) simp
  have c: "jiraPriorityName (JObj [(''severity'', JStr ''Major functionality not working'')])
      = ''Medium''"
    by (subst jiraPriorityName_rule) simp
  have d: "jiraPriorityName (JObj []) = ''Medium''"
    by (subst jiraPriorityName_rule) simp
  from a b c d show ?thesis by (intro conjI)
qed

lemma dropWhile_all: "dropWhile p s = [] \<longleftrightarrow> (\<forall>c \<in> set s. p c)"
  by (induction s) auto

lemma trim_empty_iff: "trim s = [] \<longleftrightarrow> (\<forall>c \<in> set s. is_space c)"
proof -
  have "trim s = [] \<longleftrightarrow> (\<forall>c \<in> set (dropWhile is_space s). is_space c)"
    by (simp add: trim_def dropWhile_all)
  also have "\<dots> \<longleftrightarrow> dropWhile is_space s = []"
    by (metis dropWhile_all dropWhile_eq_Nil_conv dropWhile_idem)
  finally show ?thesis by (simp add: dropWhile_all)
qed

lemma isMissing_iff:
  "isMissing v \<longleftrightarrow>
     v = JUndefined \<or> v = JNull \<or> v = JArr [] \<or>
     (\<exists>s. v = JStr s \<and> (\<forall>c \<in> set s. is_space c)) \<or>
     (\<exists>kvs. v = JObj kvs \<and> getProp v ''selected'' = JArr [] \<and>
            getProp v ''unselected'' = JArr [])"
proof (cases v)
  case (JObj kvs)
  then show ?thesis
    by (auto split: jsval.splits)
qed (simp_all add: trim_empty_iff)

text \<open>
  Claim C5, as amended. \<^verbatim>\<open>valueOrMissing(id)\<close> is the text
  \<^verbatim>\<open>Field <id> wasn't entered.\<close> when the raw value is missing and
  \<^verbatim>\<open>normalizeValue\<close> of the raw value otherwise. So the result is that text exactly
  when the raw value is missing or \<^verbatim>\<open>normalizeValue\<close> of it is that very text. A
  value is missing exactly when it is \<^verbatim>\<open>undefined\<close>, \<^verbatim>\<open>null\<close>, an empty array, a
  string of white space only (the empty string included), or an object whose
  \<^verbatim>\<open>selected\<close> and \<^verbatim>\<open>unselected\<close> are both empty arrays. So the number 0, a string
  with a character that is not white space, a non-empty array and an object
  without the checkbox shape are not missing.
\<close>

theorem valueOrMissing_rule:
  "valueOrMissing form fid =
     (if isMissing (getProp form fid)
      then JStr (''Field '' @ fid @ '' wasn'' @ [CHR 0x27] @ ''t entered.'')
      else normalizeValue (getProp form fid)) \<and>
   (isMissing v \<longleftrightarrow>
      v = JUndefined \<or> v = JNull \<or> v = JArr [] \<or>
      (\<exists>s. v = JStr s \<and> (\<forall>c \<in> set s. is_space c)) \<or>
      (\<exists>kvs. v = JObj kvs \<and> getProp v ''selected'' = JArr [] \<and>
             getProp v ''unselected'' = JArr [])) \<and>
   \<not> isMissing (JNum 0) \<and>
   ((\<exists>c \<in> set s. \<not> is_space c) \<longrightarrow> \<not> isMissing (JStr s)) \<and>
   (xs \<noteq> [] \<longrightarrow> \<not> isMissing (JArr xs)) \<and>
   (\<not> (isArray (getProp (JObj kvs) ''selected'') \<and> isArray (getProp (JObj kvs) ''unselected''))
      \<longrightarrow> \<not> isMissing (JObj kvs)) \<and>
   (valueOrMissing form fid = JStr (''Field '' @ fid @ '' wasn'' @ [CHR 0x27] @ ''t entered.'') \<longleftrightarrow>
      isMissing (getProp form fid) \<or>
      normalizeValue (getProp form fid)
        = JStr (''Field '' @ fid @ '' wasn'' @ [CHR 0x27] @ ''t entered.''))"
proof -
  have 1: "valueOrMissing form fid =
     (if isMissing (getProp form fid)
      then JStr (''Field '' @ fid @ '' wasn'' @ [CHR 0x27] @ ''t entered.'')
      else normalizeValue (getProp form fid))"
    by (simp add: valueOrMissing_def missingText_def Let_def)
  have 4: "(\<exists>c \<in> set s. \<not> is_space c) \<longrightarrow> \<not> isMissing (JStr s)"
    by (simp add: trim_empty_iff)
  have 6: "\<not> (isArray (getProp (JObj kvs) ''selected'') \<and> isArray (getProp (JObj kvs) ''unselected''))
      \<longrightarrow> \<not> isMissing (JObj kvs)"
    by (auto split: jsval.splits)
  have 7: "valueOrMissing form fid = JStr (''Field '' @ fid @ '' wasn'' @ [CHR 0x27] @ ''t entered.'') \<longleftrightarrow>
      isMissing (getProp form fid) \<or>
      normalizeValue (getProp form fid)
        = JStr (''Field '' @ fid @ '' wasn'' @ [CHR 0x27] @ ''t entered.'')"
    by (simp add: valueOrMissing_def missingText_def Let_def)
  have 2: "isMissing v \<longleftrightarrow>
      v = JUndefined \<or> v = JNull \<or> v = JArr [] \<or>
      (\<exists>s. v = JStr s \<and> (\<forall>c \<in> set s. is_space c)) \<or>
      (\<exists>kvs. v = JObj kvs \<and> getProp v ''selected'' = JArr [] \<and>
             getProp v ''unselected'' = JArr [])"
    by (rule isMissing_iff)
  have 3: "\<not> isMissing (JNum 0)" by simp
  have 5: "xs \<noteq> [] \<longrightarrow> \<not> isMissing (JArr xs)" by simp
  from 1 2 3 4 5 6 7 show ?thesis by (intro conjI)
qed

theorem valueOrMissing_rule_witness:
  "valueOrMissing example_form ''device'' = JStr (''Field device wasn'' @ [CHR 0x27] @ ''t entered.'') \<and>
   valueOrMissing example_form ''android-version''
     = JStr (''Field android-version wasn'' @ [CHR 0x27] @ ''t entered.'') \<and>
   valueOrMissing example_form ''logs'' = JStr ''stacktrace...'' \<and>
   valueOrMissing example_form ''severity'' = JStr ''Major functionality not working'' \<and>
   \<not> isMissing (JStr ''x'') \<and> \<not> isMissing (JArr [JStr ''a'']) \<and>
   \<not> isMissing (JObj [(''selected'', JArr [JStr ''a'']), (''unselected'', JArr [])]) \<and>
   \<not> isMissing (JObj [(''checked'', JArr [])]) \<and>
   isMissing (JObj [(''selected'', JArr []), (''unselected'', JArr [])])"
proof -
  have sp: "is_space CHR '' ''" "\<not> is_space CHR ''x''" by (simp_all add: is_space_def)
  have g: "getProp example_form ''device'' = JStr ''   ''"
    "getProp example_form ''android-version'' = JUndefined"
    "getProp example_form ''logs'' = JStr ''stacktrace...''"
    "getProp example_form ''severity'' = JArr [JStr ''Major functionality not working'']"
    by (simp_all add: example_form_def)
  have m: "trim ''   '' = []" "trim ''stacktrace...'' \<noteq> []" "trim ''x'' \<noteq> []"
    by code_simp+
  show ?thesis
    using valueOrMissing_rule [of example_form "''device''" "JStr ''   ''" "''x''" "[JStr ''a'']"
        "[(''selected'', JArr [JStr ''a'']), (''unselected'', JArr [])]"]
      valueOrMissing_rule [of example_form "''android-version''" "JUndefined" "''x''" "[JStr ''a'']"
        "[(''checked'', JArr [])]"]
      valueOrMissing_rule [of example_form "''logs''"
        "JObj [(''selected'', JArr []), (''unselected'', JArr [])]" "''x''" "[JStr ''a'']" "[]"]
      valueOrMissing_rule [of example_form "''severity''" "JNull" "''x''" "[JStr ''a'']" "[]"]
    by (simp add: g m sp join_def)
qed

text \<open>
  Claim C5 as the specification words it (the text is returned exactly when the
  value is missing) fails for a value that is that very text: the \<^verbatim>\<open>device\<close>
  field holding \<^verbatim>\<open>Field device wasn't entered.\<close> is not missing, and the result
  is the text all the same.
\<close>

theorem valueOrMissing_rule_counterexample:
  "\<not> isMissing
       (getProp (JObj [(''device'', JStr (''Field device wasn'' @ [CHR 0x27] @ ''t entered.''))])
          ''device'') \<and>
   valueOrMissing (JObj [(''device'', JStr (''Field device wasn'' @ [CHR 0x27] @ ''t entered.''))])
     ''device''
     = JStr (''Field device wasn'' @ [CHR 0x27] @ ''t entered.'') \<and>
   missingText ''device'' = ''Field device wasn'' @ [CHR 0x27] @ ''t entered.''"
proof -
  have t: "trim (''Field device wasn'' @ [CHR 0x27] @ ''t entered.'') \<noteq> []"
    by code_simp
  then have m: "\<not> isMissing (JStr (''Field device wasn'' @ [CHR 0x27] @ ''t entered.''))"
    by simp
  then show ?thesis
    by (simp add: valueOrMissing_def missingText_def)
qed

lemma foldl_set_add_prefix: "\<exists>ys. foldl set_add acc xs = acc @ ys"
proof (induction xs arbitrary: acc)
  case Nil
  show ?case by simp
next
  case (Cons x xs)
  from Cons [of "set_add acc x"] show ?case by (auto simp: set_add_def)
qed

lemma sdk_label_kept: "''sdk-'' @ sanitizeLabel v \<in> set (jiraLabels n v gh)"
proof -
  let ?five = "[''cmp'', ''android'', ''source-github'', ''gh-issue-'' @ toString n,
                ''sdk-'' @ sanitizeLabel v]"
  have d: "distinct ?five" by (rule fixed_labels_distinct)
  have "Set_from (labelCandidates n v gh) = foldl set_add (Set_from ?five) (map sanitizeLabel gh)"
    by (simp add: Set_from_def labelCandidates_def)
  also have "\<dots> = foldl set_add ?five (map sanitizeLabel gh)"
    by (simp only: Set_from_fresh [OF d])
  finally obtain ys where "Set_from (labelCandidates n v gh) = ?five @ ys"
    using foldl_set_add_prefix [of ?five "map sanitizeLabel gh"] by auto
  then show ?thesis by (simp add: jiraLabels_def)
qed

lemma sanitize_beta: "sanitizeLabel (JStr ''14.2.0-beta'') = ''14-2-0-beta''"
  by code_simp

text \<open>
  Claim C7. When the first element of the \<^verbatim>\<open>sdk-version\<close> array is
  \<^verbatim>\<open>Other (specify below)\<close>, the effective SDK version is the \<^verbatim>\<open>sdk-version-other\<close>
  value, or \<^verbatim>\<open>Other\<close> when that is \<^verbatim>\<open>undefined\<close> or \<^verbatim>\<open>null\<close>. Otherwise it is the
  first element of the \<^verbatim>\<open>sdk-version\<close> array, or \<^verbatim>\<open>unknown\<close> when the field is
  absent (also when it is not an array, or its first element is \<^verbatim>\<open>undefined\<close> or
  \<^verbatim>\<open>null\<close>). The Jira labels contain \<^verbatim>\<open>sdk-\<close> followed by the sanitised effective
  version; with the other-field \<^verbatim>\<open>14.2.0-beta\<close> that label is \<^verbatim>\<open>sdk-14-2-0-beta\<close>.
\<close>

theorem effectiveSdkVersion_rule:
  "(getProp form ''sdk-version'' = JArr (JStr ''Other (specify below)'' # rest) \<longrightarrow>
      effectiveSdkVersion form =
        (if nullish (getProp form ''sdk-version-other'') then JStr ''Other''
         else getProp form ''sdk-version-other'')) \<and>
   (getProp form ''sdk-version'' = JArr (x # rest) \<and> x \<noteq> JStr ''Other (specify below)'' \<and>
      \<not> nullish x \<longrightarrow> effectiveSdkVersion form = x) \<and>
   (getProp form ''sdk-version'' = JUndefined \<longrightarrow> effectiveSdkVersion form = JStr ''unknown'') \<and>
   (\<not> isArray (getProp form ''sdk-version'') \<or> nullish (first_elem (getProp form ''sdk-version''))
      \<longrightarrow> effectiveSdkVersion form = JStr ''unknown'') \<and>
   ''sdk-'' @ sanitizeLabel (effectiveSdkVersion form)
      \<in> set (jiraLabels n (effectiveSdkVersion form) gh) \<and>
   (getProp form ''sdk-version'' = JArr (JStr ''Other (specify below)'' # rest) \<and>
      getProp form ''sdk-version-other'' = JStr ''14.2.0-beta'' \<longrightarrow>
      ''sdk-14-2-0-beta'' \<in> set (jiraLabels n (effectiveSdkVersion form) gh))"
proof -
  have c1: "getProp form ''sdk-version'' = JArr (JStr ''Other (specify below)'' # rest) \<longrightarrow>
      effectiveSdkVersion form =
        (if nullish (getProp form ''sdk-version-other'') then JStr ''Other''
         else getProp form ''sdk-version-other'')"
    by (simp add: effectiveSdkVersion_def sdkVersion_def sdkVersionOther_def orElse_def)
  have c2: "getProp form ''sdk-version'' = JArr (x # rest) \<and> x \<noteq> JStr ''Other (specify below)'' \<and>
      \<not> nullish x \<longrightarrow> effectiveSdkVersion form = x"
    by (simp add: effectiveSdkVersion_def sdkVersion_def orElse_def)
  have c4: "\<not> isArray (getProp form ''sdk-version'') \<or>
      nullish (first_elem (getProp form ''sdk-version''))
      \<longrightarrow> effectiveSdkVersion form = JStr ''unknown''"
    by (auto simp: effectiveSdkVersion_def sdkVersion_def orElse_def nullish_def)
  have c3: "getProp form ''sdk-version'' = JUndefined \<longrightarrow> effectiveSdkVersion form = JStr ''unknown''"
    using c4 by simp
  have c5: "''sdk-'' @ sanitizeLabel (effectiveSdkVersion form)
      \<in> set (jiraLabels n (effectiveSdkVersion form) gh)"
    by (rule sdk_label_kept)
  have c6: "getProp form ''sdk-version'' = JArr (JStr ''Other (specify below)'' # rest) \<and>
      getProp form ''sdk-version-other'' = JStr ''14.2.0-beta'' \<longrightarrow>
      ''sdk-14-2-0-beta'' \<in> set (jiraLabels n (effectiveSdkVersion form) gh)"
  proof
    assume a: "getProp form ''sdk-version'' = JArr (JStr ''Other (specify below)'' # rest) \<and>
      getProp form ''sdk-version-other'' = JStr ''14.2.0-beta''"
    with c1 have "effectiveSdkVersion form = JStr ''14.2.0-beta''"
      by (simp add: nullish_def)
    with c5 have "''sdk-'' @ ''14-2-0-beta'' \<in> set (jiraLabels n (effectiveSdkVersion form) gh)"
      by (simp only: sanitize_beta)
    then show "''sdk-14-2-0-beta'' \<in> set (jiraLabels n (effectiveSdkVersion form) gh)"
      by simp
  qed
  from c1 c2 c3 c4 c5 c6 show ?thesis by blast
qed

lemma example_form_sdk:
  "getProp example_form ''sdk-version'' = JArr [JStr ''Other (specify below)'']"
  "getProp example_form ''sdk-version-other'' = JStr ''14.2.0-beta''"
  by (simp_all add: example_form_def)

theorem effectiveSdkVersion_rule_witness:
  "effectiveSdkVersion example_form = JStr ''14.2.0-beta'' \<and>
   ''sdk-14-2-0-beta'' \<in> set (jiraLabels (JNum 42) (effectiveSdkVersion example_form) []) \<and>
   effectiveSdkVersion (JObj [(''sdk-version'', JArr [JStr ''Other (specify below)''])])
     = JStr ''Other'' \<and>
   effectiveSdkVersion (JObj [(''sdk-version'', JArr [JStr ''14.1.0''])]) = JStr ''14.1.0'' \<and>
   effectiveSdkVersion (JObj []) = JStr ''unknown''"
proof -
  note r = effectiveSdkVersion_rule [of example_form "[]" "JStr ''Other (specify below)''"
      "JNum 42" "[]"]
  from r have a: "effectiveSdkVersion example_form = JStr ''14.2.0-beta''"
    by (simp add: example_form_sdk nullish_def)
  from r have b: "''sdk-14-2-0-beta''
      \<in> set (jiraLabels (JNum 42) (effectiveSdkVersion example_form) [])"
    using example_form_sdk by blast
  have c: "effectiveSdkVersion (JObj [(''sdk-version'', JArr [JStr ''Other (specify below)''])])
     = JStr ''Other''"
    using effectiveSdkVersion_rule
      [of "JObj [(''sdk-version'', JArr [JStr ''Other (specify below)''])]" "[]" "JNull" "JNum 42" "[]"]
    by (simp add: nullish_def)
  have d: "effectiveSdkVersion (JObj [(''sdk-version'', JArr [JStr ''14.1.0''])]) = JStr ''14.1.0''"
    using effectiveSdkVersion_rule
      [of "JObj [(''sdk-version'', JArr [JStr ''14.1.0''])]" "[]" "JStr ''14.1.0''" "JNum 42" "[]"]
    by (simp add: nullish_def)
  have e: "effectiveSdkVersion (JObj []) = JStr ''unknown''"
    using effectiveSdkVersion_rule [of "JObj []" "[]" "JNull" "JNum 42" "[]"]
    by simp
  from a b c d e show ?thesis by (intro conjI)
qed

text \<open>
  Claim C3 does not hold of the script. The script takes the logs for missing when
  the normalised value starts with \<^verbatim>\<open>Field \<close>, so logs that were entered and start
  with that word are put in a paragraph, not in a code block: here the logs are
  \<^verbatim>\<open>Field report: crash on launch\<close>.
\<close>

theorem logsBlock_entered_logs_as_paragraph:
  "\<not> isMissing (getProp (JObj [(''logs'', JStr ''Field report: crash on launch'')]) ''logs'') \<and>
   last (descriptionContent stringify issueNumber author url
          (fieldLog (JObj [(''logs'', JStr ''Field report: crash on launch'')])))
     = adfParagraph (JStr ''Field report: crash on launch'')"
proof -
  have m: "trim ''Field report: crash on launch'' \<noteq> []" by code_simp
  have "getProp (fieldLog (JObj [(''logs'', JStr ''Field report: crash on launch'')])) ''logs''
        = JStr ''Field report: crash on launch''"
    by (simp add: fieldLog_def FIELD_IDS_def valueOrMissing_def m)
  then show ?thesis
    by (simp add: descriptionContent_def logsBlock_def startsWith_def m)
qed

subsection \<open>Label sanitisation and the specification\<close>

lemma collapse_runs_dropWhile:
  "p c \<Longrightarrow> spec_collapse_runs p (c # cs) = CHR ''-'' # spec_collapse_runs p (dropWhile p cs)"
proof (induction cs arbitrary: c)
  case Nil
  then show ?case by simp
next
  case (Cons a cs)
  then show ?case by (cases cs) auto
qed

lemma collapse_runs_space: "spec_collapse_runs is_space s = replace_space_runs s"
proof (induction s rule: replace_space_runs.induct)
  case 1
  show ?case by simp
next
  case (2 c cs)
  show ?case
  proof (cases "is_space c")
    case True
    with 2 show ?thesis by (simp add: collapse_runs_dropWhile)
  next
    case False
    with 2 show ?thesis by (cases cs) auto
  qed
qed

lemma collapse_runs_hyphen: "spec_collapse_runs (\<lambda>d. d = CHR ''-'') s = collapse_hyphens s"
proof (induction s rule: collapse_hyphens.induct)
  case 1
  show ?case by simp
next
  case (2 c cs)
  show ?case
  proof (cases "c = CHR ''-''")
    case True
    with 2 show ?thesis by (simp add: collapse_runs_dropWhile)
  next
    case False
    with 2 show ?thesis by (cases cs) auto
  qed
qed

lemma single_hyphens_Cons:
  "single_hyphens (c # s) \<longleftrightarrow>
     single_hyphens s \<and> (c = CHR ''-'' \<longrightarrow> s = [] \<or> hd s \<noteq> CHR ''-'')"
  by (cases s) auto

lemma single_hyphens_snoc:
  "single_hyphens (s @ [a]) \<longleftrightarrow>
     single_hyphens s \<and> (a = CHR ''-'' \<longrightarrow> s = [] \<or> last s \<noteq> CHR ''-'')"
proof (induction s)
  case Nil
  show ?case by simp
next
  case (Cons c s)
  then show ?case by (cases s) (auto simp: single_hyphens_Cons)
qed

lemma collapse_runs_hd:
  "spec_collapse_runs p (c # cs) \<noteq> [] \<and>
   hd (spec_collapse_runs p (c # cs)) = (if p c then CHR ''-'' else c)"
proof (induction cs arbitrary: c)
  case Nil
  show ?case by simp
next
  case (Cons a cs)
  from Cons [of a] show ?case by auto
qed

lemma single_hyphens_collapse: "single_hyphens (collapse_hyphens s)"
proof -
  have "single_hyphens (spec_collapse_runs (\<lambda>d. d = CHR ''-'') s)"
  proof (induction s)
    case Nil
    show ?case by simp
  next
    case (Cons c s)
    show ?case
    proof (cases s)
      case Nil
      then show ?thesis by simp
    next
      case (Cons d ds)
      with Cons.IH collapse_runs_hd [of "\<lambda>d. d = CHR ''-''" d ds] show ?thesis
        by (auto simp: single_hyphens_Cons)
    qed
  qed
  then show ?thesis by (simp add: collapse_runs_hyphen)
qed

lemma dropWhile_id: "s = [] \<or> \<not> p (hd s) \<Longrightarrow> dropWhile p s = s"
  by (cases s) auto

lemma strip_last:
  assumes "single_hyphens s" and "s \<noteq> []" and "last s = CHR ''-''"
  shows "rev (dropWhile (\<lambda>d. d = CHR ''-'') (rev s)) = butlast s"
proof -
  from assms obtain t where s: "s = t @ [CHR ''-'']"
    by (metis append_butlast_last_id)
  with assms(1) have "t = [] \<or> last t \<noteq> CHR ''-''"
    by (simp add: single_hyphens_snoc)
  then have "rev t = [] \<or> \<not> (hd (rev t) = CHR ''-'')"
    by (auto simp: hd_rev)
  then have "dropWhile (\<lambda>d. d = CHR ''-'') (rev t) = rev t"
    by (rule dropWhile_id)
  then show ?thesis by (simp add: s)
qed

lemma strip_keep:
  assumes "s = [] \<or> last s \<noteq> CHR ''-''"
  shows "rev (dropWhile (\<lambda>d. d = CHR ''-'') (rev s)) = s"
proof -
  from assms have "rev s = [] \<or> \<not> (hd (rev s) = CHR ''-'')"
    by (auto simp: hd_rev)
  then have "dropWhile (\<lambda>d. d = CHR ''-'') (rev s) = rev s"
    by (rule dropWhile_id)
  then show ?thesis by simp
qed

lemma strip_edge_single:
  assumes "single_hyphens s"
  shows "strip_edge_hyphen s = spec_strip_hyphens s"
proof -
  define s1 where "s1 = (case s of [] \<Rightarrow> [] | c # cs \<Rightarrow> if c = CHR ''-'' then cs else s)"
  have d: "dropWhile (\<lambda>d. d = CHR ''-'') s = s1"
  proof (cases s)
    case Nil
    then show ?thesis by (simp add: s1_def)
  next
    case (Cons c cs)
    with assms have "c = CHR ''-'' \<Longrightarrow> dropWhile (\<lambda>d. d = CHR ''-'') cs = cs"
      by (intro dropWhile_id) (auto simp: single_hyphens_Cons)
    with Cons show ?thesis by (auto simp: s1_def)
  qed
  have n: "single_hyphens s1"
    using assms by (cases s) (auto simp: s1_def single_hyphens_Cons)
  have "strip_edge_hyphen s = (if s1 \<noteq> [] \<and> last s1 = CHR ''-'' then butlast s1 else s1)"
    by (simp add: strip_edge_hyphen_def s1_def)
  also have "\<dots> = rev (dropWhile (\<lambda>d. d = CHR ''-'') (rev s1))"
    using n by (auto simp: strip_last strip_keep)
  finally show ?thesis by (simp add: spec_strip_hyphens_def d)
qed

text \<open>
  Claim C8. For every string, \<^verbatim>\<open>sanitizeLabel\<close> computes what the specification
  describes: lowercase, each run of white space collapsed into one hyphen, every
  character outside \<^verbatim>\<open>[a-z0-9-_]\<close> replaced by a hyphen, repeated hyphens collapsed
  into one, leading and trailing hyphens stripped. In particular
  \<^verbatim>\<open>Galaxy S21 Ultra!\<close> becomes \<^verbatim>\<open>galaxy-s21-ultra\<close>.
\<close>

theorem sanitizeLabel_refines_spec:
  "sanitizeLabel (JStr s) = spec_sanitizeLabel s \<and>
   sanitizeLabel (JStr ''Galaxy S21 Ultra!'') = ''galaxy-s21-ultra''"
proof -
  have a: "sanitizeLabel (JStr s) = spec_sanitizeLabel s"
    using strip_edge_single [OF single_hyphens_collapse]
    by (simp add: sanitizeLabel_def spec_sanitizeLabel_def toLowerCase_def replace_other_def
        collapse_runs_space collapse_runs_hyphen)
  have b: "sanitizeLabel (JStr ''Galaxy S21 Ultra!'') = ''galaxy-s21-ultra''"
    by code_simp
  from a b show ?thesis by (rule conjI)
qed

theorem sanitizeLabel_refines_spec_witness:
  "sanitizeLabel (JStr ''--Pixel  7_Pro (2023)--'') = ''pixel-7_pro-2023'' \<and>
   spec_sanitizeLabel ''--Pixel  7_Pro (2023)--'' = ''pixel-7_pro-2023''"
proof -
  have "spec_sanitizeLabel ''--Pixel  7_Pro (2023)--'' = ''pixel-7_pro-2023''"
    by code_simp
  with sanitizeLabel_refines_spec [of "''--Pixel  7_Pro (2023)--''"] show ?thesis by simp
qed

subsection \<open>The run: helper facts\<close>

lemma seq_Inl [simp]: "seq (t, Inl e) f = (t, Inl e)"
  by (simp add: seq_def)

lemma seq_Inr [simp]: "seq (t, Inr a) f = (t @ fst (f a), snd (f a))"
  by (simp add: seq_def)

lemma seq_pure_Inl [simp]: "seq (pure (Inl e)) f = ([], Inl e)"
  by (simp add: pure_def)

lemma seq_pure_Inr [simp]: "seq (pure (Inr a)) f = f a"
  by (simp add: pure_def)

lemma seq_emit [simp]: "seq (emit ev) f = (ev # fst (f ()), snd (f ()))"
  by (simp add: emit_def)

lemma fst_pure [simp]: "fst (pure r) = []"
  by (simp add: pure_def)

lemma snd_pure [simp]: "snd (pure r) = r"
  by (simp add: pure_def)

lemma fst_emit [simp]: "fst (emit ev) = [ev]"
  by (simp add: emit_def)

lemma snd_emit [simp]: "snd (emit ev) = Inr ()"
  by (simp add: emit_def)

lemma quiet_seq: "quiet m \<Longrightarrow> (\<And>a. quiet (f a)) \<Longrightarrow> quiet (seq m f)"
  by (cases m; cases "snd m") (auto simp: quiet_def seq_def split: sum.splits)

lemma quiet_pure_Inr: "quiet (pure (Inr a))"
  by (simp add: quiet_def pure_def)

lemma quiet_log: "quiet (emit (ConsoleLog s))"
  by (simp add: quiet_def emit_def)

lemma quiet_readFileSync: "quiet (readFileSync w p)"
  by (simp add: quiet_def readFileSync_def split: option.splits)

lemma quiet_readIssue: "quiet (readIssue w)"
  unfolding readIssue_def
  by (rule quiet_seq [OF quiet_readFileSync])
     (simp add: quiet_def pure_def split: option.splits)

lemma quiet_repo:
  "quiet (pure (case e of None \<Rightarrow> Inl TypeError | Some (r :: string) \<Rightarrow> Inr r))"
  by (simp add: quiet_def pure_def split: option.splits)

lemma quiet_ghLabels: "quiet (pure (ghLabels issue))"
  by (simp add: quiet_def pure_def ghLabels_def split: jsval.splits)

lemma quiet_form: "quiet (pure (if nullish v then Inl TypeError else Inr v))"
  by (simp add: quiet_def pure_def)

lemma quiet_prepare: "quiet (prepare w cfg)"
  unfolding prepare_def
  apply (rule quiet_seq [OF quiet_readIssue])
  apply (rule quiet_seq [OF quiet_repo])
  apply (rule quiet_seq [OF quiet_ghLabels])
  apply (rule quiet_seq [OF quiet_readFileSync])
  apply (rule quiet_seq [OF quiet_form])
  apply (rule quiet_seq [OF quiet_log])
  apply (rule quiet_seq [OF quiet_log])
  apply (rule quiet_pure_Inr)
  done

lemma requiredEnv_is_set:
  "requiredEnv e name =
     (if is_set e name then Inr (the (e name)) else Inl (Error (missingEnvMessage name)))"
  by (simp add: requiredEnv_def is_set_def split: option.splits)

lemma REQUIRED_ENV_iff:
  "name \<in> set REQUIRED_ENV \<longleftrightarrow>
     name = ''ISSUE_TEMPLATE_PATH'' \<or> name = ''JIRA_BASE_URL'' \<or> name = ''JIRA_EMAIL'' \<or>
     name = ''JIRA_API_TOKEN'' \<or> name = ''GITHUB_TOKEN''"
  unfolding REQUIRED_ENV_def by simp

lemma loadConfig_if:
  "loadConfig e =
     (if \<not> is_set e ''ISSUE_TEMPLATE_PATH'' then Inl (Error (missingEnvMessage ''ISSUE_TEMPLATE_PATH''))
      else if \<not> is_set e ''JIRA_BASE_URL'' then Inl (Error (missingEnvMessage ''JIRA_BASE_URL''))
      else if \<not> is_set e ''JIRA_EMAIL'' then Inl (Error (missingEnvMessage ''JIRA_EMAIL''))
      else if \<not> is_set e ''JIRA_API_TOKEN'' then Inl (Error (missingEnvMessage ''JIRA_API_TOKEN''))
      else if \<not> is_set e ''GITHUB_TOKEN'' then Inl (Error (missingEnvMessage ''GITHUB_TOKEN''))
      else loadConfig e)"
  by (simp add: loadConfig_def andThen_def requiredEnv_is_set)

lemma loadConfig_first_unset:
  assumes "name \<in> set REQUIRED_ENV" and "\<not> is_set e name"
    and "\<forall>n \<in> set (takeWhile (\<lambda>n. n \<noteq> name) REQUIRED_ENV). is_set e n"
  shows "loadConfig e = Inl (Error (missingEnvMessage name))"
proof -
  from assms(1) consider "name = ''ISSUE_TEMPLATE_PATH''" | "name = ''JIRA_BASE_URL''"
    | "name = ''JIRA_EMAIL''" | "name = ''JIRA_API_TOKEN''" | "name = ''GITHUB_TOKEN''"
    unfolding REQUIRED_ENV_iff by argo
  then show ?thesis
  proof cases
    case 1
    with assms(2) show ?thesis by (subst loadConfig_if) simp
  next
    case 2
    with assms(2,3) show ?thesis by (subst loadConfig_if) (simp add: REQUIRED_ENV_def)
  next
    case 3
    with assms(2,3) show ?thesis by (subst loadConfig_if) (simp add: REQUIRED_ENV_def)
  next
    case 4
    with assms(2,3) show ?thesis by (subst loadConfig_if) (simp add: REQUIRED_ENV_def)
  next
    case 5
    with assms(2,3) show ?thesis by (subst loadConfig_if) (simp add: REQUIRED_ENV_def)
  qed
qed

lemma loadConfig_some_unset:
  assumes "name \<in> set REQUIRED_ENV" and "\<not> is_set e name"
  shows "\<exists>n \<in> set REQUIRED_ENV. \<not> is_set e n \<and> loadConfig e = Inl (Error (missingEnvMessage n))"
proof -
  from assms have "\<not> is_set e ''ISSUE_TEMPLATE_PATH'' \<or> \<not> is_set e ''JIRA_BASE_URL'' \<or>
      \<not> is_set e ''JIRA_EMAIL'' \<or> \<not> is_set e ''JIRA_API_TOKEN'' \<or> \<not> is_set e ''GITHUB_TOKEN''"
    unfolding REQUIRED_ENV_iff by (elim disjE) simp_all
  then show ?thesis
    unfolding REQUIRED_ENV_def by (subst loadConfig_if) (simp split: if_splits)
qed

lemma loadConfig_error:
  assumes "loadConfig e = Inl err"
  shows "\<exists>n \<in> set REQUIRED_ENV. err = Error (missingEnvMessage n)"
  using assms unfolding REQUIRED_ENV_def
  by (simp add: loadConfig_def andThen_def requiredEnv_is_set split: if_splits)

lemma run_config_error: "loadConfig (env w) = Inl err \<Longrightarrow> run w = ([], Inl err)"
  by (simp add: run_def)

lemma run_config_ok:
  "loadConfig (env w) = Inr cfg \<Longrightarrow> run w = seq (prepare w cfg) (deliver w cfg)"
  by (simp add: run_def)


lemma deliver_jira_rejected:
  assumes "fetch w (jiraRequest w cfg (job_payload j)) = None"
  shows "deliver w cfg j = ([JiraFetch (jiraRequest w cfg (job_payload j))], Inl NetworkError)"
  using assms by (simp add: deliver_def jiraCreateIssue_def)

lemma deliver_jira_failed:
  assumes "fetch w (jiraRequest w cfg (job_payload j)) = Some res" and "\<not> res_ok res"
  shows "deliver w cfg j =
         ([JiraFetch (jiraRequest w cfg (job_payload j))],
          Inl (Error (jiraFailedMessage (res_status res) (res_text res))))"
  using assms by (simp add: deliver_def jiraCreateIssue_def)

lemma deliver_jira_ok:
  assumes "fetch w (jiraRequest w cfg (job_payload j)) = Some res" and "res_ok res"
  shows "\<exists>t out. deliver w cfg j = (JiraFetch (jiraRequest w cfg (job_payload j)) # t, out) \<and>
           (t = [] \<and> out \<in> {Inl SyntaxError, Inl TypeError} \<or>
            (\<exists>l1 l2 rq. t = [ConsoleLog l1, ConsoleLog l2, GhFetch rq] \<and>
               (out = Inl NetworkError \<or> (\<exists>st body. out = Inl (Error (ghFailedMessage st body))))) \<or>
            (\<exists>l1 l2 rq l3. t = [ConsoleLog l1, ConsoleLog l2, GhFetch rq, ConsoleLog l3] \<and>
               out = Inr ()))"
  using assms
  apply (simp add: deliver_def jiraCreateIssue_def ghCreateComment_def emit_def
      split: option.splits)
  apply blast
  done


lemma quiet_no_fetch: "quiet m \<Longrightarrow> list_all (\<lambda>ev. \<not> is_fetch ev) (fst m)"
  by (simp add: quiet_def)

lemma quiet_error:
  "quiet m \<Longrightarrow> snd m = Inl err \<Longrightarrow>
     err = TypeError \<or> err = SyntaxError \<or> err = FileError \<or> err = Error noIssueMessage"
  by (simp add: quiet_def)

text \<open>The three ways a run can go.\<close>

lemma run_shape:
  "(\<exists>n \<in> set REQUIRED_ENV. run w = ([], Inl (Error (missingEnvMessage n)))) \<or>
   (\<exists>t err. run w = (t, Inl err) \<and> list_all (\<lambda>ev. \<not> is_fetch ev) t \<and>
      (err = TypeError \<or> err = SyntaxError \<or> err = FileError \<or> err = Error noIssueMessage)) \<or>
   (\<exists>cfg t j. list_all (\<lambda>ev. \<not> is_fetch ev) t \<and>
      run w = (t @ fst (deliver w cfg j), snd (deliver w cfg j)))"
proof (cases "loadConfig (env w)")
  case (Inl err)
  with loadConfig_error [OF Inl] run_config_error [OF Inl] show ?thesis by auto
next
  case (Inr cfg)
  note run = run_config_ok [OF Inr]
  obtain t r where p: "prepare w cfg = (t, r)" by (cases "prepare w cfg")
  with quiet_prepare [of w cfg] have q: "quiet (t, r)" by simp
  show ?thesis
  proof (cases r)
    case (Inl err)
    with p run have "run w = (t, Inl err)" by simp
    with quiet_no_fetch [OF q] quiet_error [OF q] Inl show ?thesis by simp
  next
    case (Inr j)
    with p run have "run w = (t @ fst (deliver w cfg j), snd (deliver w cfg j))" by simp
    with quiet_no_fetch [OF q] show ?thesis by auto
  qed
qed


lemma other_messages:
  "missingEnvMessage n \<noteq> ghFailedMessage st body"
  "noIssueMessage \<noteq> ghFailedMessage st body"
  "jiraFailedMessage st' body' \<noteq> ghFailedMessage st body"
  by (simp_all add: missingEnvMessage_def noIssueMessage_def jiraFailedMessage_def
      ghFailedMessage_def)

lemma no_fetch_no_comment:
  assumes "list_all (\<lambda>ev. \<not> is_fetch ev) t"
  shows "GhFetch rq \<notin> set t" and "JiraFetch jr \<notin> set t" and "\<not> list_ex is_comment t"
proof -
  from assms have a: "\<forall>ev \<in> set t. \<not> is_fetch ev" by (simp add: list_all_iff)
  from a show "GhFetch rq \<notin> set t" by force
  from a show "JiraFetch jr \<notin> set t" by force
  have "\<And>ev. is_comment ev \<Longrightarrow> is_fetch ev"
  proof -
    fix ev show "is_comment ev \<Longrightarrow> is_fetch ev" by (cases ev) simp_all
  qed
  with a show "\<not> list_ex is_comment t" by (auto simp: list_ex_iff)
qed

text \<open>What the second half of a run does, by the answer to the Jira request.\<close>

lemma deliver_shape:
  fixes w cfg j
  defines "jr \<equiv> jiraRequest w cfg (job_payload j)"
  shows "\<exists>t2 out. deliver w cfg j = (JiraFetch jr # t2, out) \<and>
     ((t2 = [] \<and> (\<forall>st body. out \<noteq> Inl (Error (ghFailedMessage st body))) \<and>
        (\<forall>res. fetch w jr = Some res \<and> \<not> res_ok res \<longrightarrow>
           out = Inl (Error (jiraFailedMessage (res_status res) (res_text res))))) \<or>
      (jira_succeeded w (JiraFetch jr) \<and>
        (\<exists>l1 l2 g. t2 = [ConsoleLog l1, ConsoleLog l2, GhFetch g]) \<and> out \<noteq> Inr ()) \<or>
      (jira_succeeded w (JiraFetch jr) \<and>
        (\<exists>l1 l2 g l3. t2 = [ConsoleLog l1, ConsoleLog l2, GhFetch g, ConsoleLog l3]) \<and>
        out = Inr ()))"
proof (cases "fetch w jr")
  case None
  then show ?thesis
    using deliver_jira_rejected [of w cfg j] by (simp add: jr_def)
next
  case (Some res)
  show ?thesis
  proof (cases "res_ok res")
    case False
    with Some show ?thesis
      using deliver_jira_failed [of w cfg j res] by (simp add: jr_def other_messages)
  next
    case True
    with Some have ok: "jira_succeeded w (JiraFetch jr)" by simp
    from Some True obtain t2 out where d: "deliver w cfg j = (JiraFetch jr # t2, out)"
      and c: "t2 = [] \<and> out \<in> {Inl SyntaxError, Inl TypeError} \<or>
            (\<exists>l1 l2 rq. t2 = [ConsoleLog l1, ConsoleLog l2, GhFetch rq] \<and>
               (out = Inl NetworkError \<or> (\<exists>st body. out = Inl (Error (ghFailedMessage st body))))) \<or>
            (\<exists>l1 l2 rq l3. t2 = [ConsoleLog l1, ConsoleLog l2, GhFetch rq, ConsoleLog l3] \<and>
               out = Inr ())"
      using deliver_jira_ok [of w cfg j res] unfolding jr_def by blast
    from c consider
        (parse) "t2 = []" "out \<in> {Inl SyntaxError, Inl TypeError}"
      | (comment) l1 l2 rq where "t2 = [ConsoleLog l1, ConsoleLog l2, GhFetch rq]"
          "out = Inl NetworkError \<or> (\<exists>st body. out = Inl (Error (ghFailedMessage st body)))"
      | (posted) l1 l2 rq l3 where "t2 = [ConsoleLog l1, ConsoleLog l2, GhFetch rq, ConsoleLog l3]"
          "out = Inr ()"
      by blast
    then show ?thesis
    proof cases
      case parse
      with d Some True show ?thesis by auto
    next
      case comment
      with d ok show ?thesis by auto
    next
      case posted
      with d ok show ?thesis by auto
    qed
  qed
qed


lemma run_cases:
  obtains
    (config) n where "run w = ([], Inl (Error (missingEnvMessage n)))"
  | (early) t err where "run w = (t, Inl err)" and "list_all (\<lambda>ev. \<not> is_fetch ev) t"
      and "err = TypeError \<or> err = SyntaxError \<or> err = FileError \<or> err = Error noIssueMessage"
  | (ticket) t jr out where "run w = (t @ [JiraFetch jr], out)"
      and "list_all (\<lambda>ev. \<not> is_fetch ev) t"
      and "\<forall>st body. out \<noteq> Inl (Error (ghFailedMessage st body))"
      and "\<forall>res. fetch w jr = Some res \<and> \<not> res_ok res \<longrightarrow>
             out = Inl (Error (jiraFailedMessage (res_status res) (res_text res)))"
  | (comment) t jr l1 l2 g out where
      "run w = (t @ [JiraFetch jr, ConsoleLog l1, ConsoleLog l2, GhFetch g], out)"
      and "list_all (\<lambda>ev. \<not> is_fetch ev) t" and "jira_succeeded w (JiraFetch jr)"
  | (complete) t jr l1 l2 g l3 where
      "run w = (t @ [JiraFetch jr, ConsoleLog l1, ConsoleLog l2, GhFetch g, ConsoleLog l3], Inr ())"
      and "list_all (\<lambda>ev. \<not> is_fetch ev) t" and "jira_succeeded w (JiraFetch jr)"
proof -
  from run_shape [of w] consider
      (a) n where "run w = ([], Inl (Error (missingEnvMessage n)))"
    | (b) t err where "run w = (t, Inl err)" "list_all (\<lambda>ev. \<not> is_fetch ev) t"
        "err = TypeError \<or> err = SyntaxError \<or> err = FileError \<or> err = Error noIssueMessage"
    | (c) cfg t j where "list_all (\<lambda>ev. \<not> is_fetch ev) t"
        "run w = (t @ fst (deliver w cfg j), snd (deliver w cfg j))"
    by blast
  then show thesis
  proof cases
    case a
    then show thesis by (rule config)
  next
    case b
    then show thesis by (rule early)
  next
    case c
    from deliver_shape [of w cfg j] obtain jr t2 out where
      d: "deliver w cfg j = (JiraFetch jr # t2, out)" and
      s: "(t2 = [] \<and> (\<forall>st body. out \<noteq> Inl (Error (ghFailedMessage st body))) \<and>
            (\<forall>res. fetch w jr = Some res \<and> \<not> res_ok res \<longrightarrow>
               out = Inl (Error (jiraFailedMessage (res_status res) (res_text res))))) \<or>
          (jira_succeeded w (JiraFetch jr) \<and>
            (\<exists>l1 l2 g. t2 = [ConsoleLog l1, ConsoleLog l2, GhFetch g]) \<and> out \<noteq> Inr ()) \<or>
          (jira_succeeded w (JiraFetch jr) \<and>
            (\<exists>l1 l2 g l3. t2 = [ConsoleLog l1, ConsoleLog l2, GhFetch g, ConsoleLog l3]) \<and>
            out = Inr ())"
      by blast
    from c(2) d have r: "run w = (t @ JiraFetch jr # t2, out)" by simp
    from s consider
        (s1) "t2 = []" "\<forall>st body. out \<noteq> Inl (Error (ghFailedMessage st body))"
          "\<forall>res. fetch w jr = Some res \<and> \<not> res_ok res \<longrightarrow>
               out = Inl (Error (jiraFailedMessage (res_status res) (res_text res)))"
      | (s2) l1 l2 g where "jira_succeeded w (JiraFetch jr)"
          "t2 = [ConsoleLog l1, ConsoleLog l2, GhFetch g]"
      | (s3) l1 l2 g l3 where "jira_succeeded w (JiraFetch jr)"
          "t2 = [ConsoleLog l1, ConsoleLog l2, GhFetch g, ConsoleLog l3]" "out = Inr ()"
      by blast
    then show thesis
    proof cases
      case s1
      with r c(1) show thesis by (intro ticket [of t jr out]) simp_all
    next
      case s2
      with r c(1) show thesis by (intro comment [of t jr l1 l2 g out]) simp_all
    next
      case s3
      with r c(1) show thesis by (intro complete [of t jr l1 l2 g l3]) simp_all
    qed
  qed
qed

lemma jira_before_comment:
  assumes "list_all (\<lambda>ev. \<not> is_fetch ev) t"
    and "t @ JiraFetch jr # t2 = pre @ GhFetch rq # post"
  shows "JiraFetch jr \<in> set pre"
  using assms
proof (induction t arbitrary: pre)
  case Nil
  then show ?case by (cases pre) auto
next
  case (Cons e t)
  show ?case
  proof (cases pre)
    case Nil
    with Cons.prems show ?thesis by auto
  next
    case (Cons x pre')
    with Cons.prems Cons.IH [of pre'] show ?thesis by auto
  qed
qed

lemma ticket_created_member:
  "JiraFetch jr \<in> set evs \<Longrightarrow> jira_succeeded w (JiraFetch jr) \<Longrightarrow> ticket_created w evs"
  unfolding ticket_created_def list_ex_iff by blast

lemma run_comment_after_ticket:
  assumes "fst (run w) = pre @ GhFetch rq # post"
  shows "ticket_created w pre"
proof (cases w rule: run_cases)
  case (config n)
  with assms show ?thesis by simp
next
  case (early t err)
  with assms no_fetch_no_comment(1) [OF early(2), of rq] show ?thesis by simp
next
  case (ticket t jr out)
  from ticket(1) assms have "pre @ GhFetch rq # post = t @ [JiraFetch jr]" by simp
  then have "GhFetch rq \<in> set (t @ [JiraFetch jr])" by (metis in_set_conv_decomp)
  with no_fetch_no_comment(1) [OF ticket(2), of rq] show ?thesis by simp
next
  case (comment t jr l1 l2 g out)
  with assms have "t @ JiraFetch jr # [ConsoleLog l1, ConsoleLog l2, GhFetch g]
      = pre @ GhFetch rq # post" by simp
  from jira_before_comment [OF comment(2) this] comment(3) show ?thesis
    by (rule ticket_created_member)
next
  case (complete t jr l1 l2 g l3)
  with assms have "t @ JiraFetch jr # [ConsoleLog l1, ConsoleLog l2, GhFetch g, ConsoleLog l3]
      = pre @ GhFetch rq # post" by simp
  from jira_before_comment [OF complete(2) this] complete(3) show ?thesis
    by (rule ticket_created_member)
qed

lemma run_jira_failure:
  assumes "JiraFetch rq \<in> set (fst (run w))" and "fetch w rq = Some res" and "\<not> res_ok res"
  shows "snd (run w) = Inl (Error (jiraFailedMessage (res_status res) (res_text res))) \<and>
         \<not> list_ex is_comment (fst (run w))"
proof (cases w rule: run_cases)
  case (config n)
  with assms show ?thesis by simp
next
  case (early t err)
  with assms no_fetch_no_comment(2) [OF early(2), of rq] show ?thesis by simp
next
  case (ticket t jr out)
  with assms(1) no_fetch_no_comment(2) [OF ticket(2), of rq] have "rq = jr" by simp
  with ticket assms(2,3) no_fetch_no_comment(3) [OF ticket(2)] show ?thesis by simp
next
  case (comment t jr l1 l2 g out)
  with assms(1) no_fetch_no_comment(2) [OF comment(2), of rq] have "rq = jr" by simp
  with comment(3) assms(2,3) show ?thesis by simp
next
  case (complete t jr l1 l2 g l3)
  with assms(1) no_fetch_no_comment(2) [OF complete(2), of rq] have "rq = jr" by simp
  with complete(3) assms(2,3) show ?thesis by simp
qed

lemma run_comment_failure:
  assumes "snd (run w) = Inl (Error (ghFailedMessage st body))"
  shows "ticket_created w (fst (run w)) \<and> fst (run w) \<noteq> [] \<and> is_comment (last (fst (run w)))"
proof (cases w rule: run_cases)
  case (config n)
  with assms other_messages(1) [of n st body] show ?thesis by simp
next
  case (early t err)
  with assms other_messages(2) [of st body] show ?thesis by auto
next
  case (ticket t jr out)
  with assms show ?thesis by simp
next
  case (comment t jr l1 l2 g out)
  then show ?thesis
    using ticket_created_member [of jr "fst (run w)" w] by simp
next
  case (complete t jr l1 l2 g l3)
  with assms show ?thesis by simp
qed

subsection \<open>Ticket before comment\<close>

text \<open>
  Claim C9. In every run, a request to post the GitHub comment comes after a request
  to create the Jira issue that was answered with success. When the Jira request
  is answered without success, the run ends with the error
  \<^verbatim>\<open>Jira create issue failed (<status>): <body>\<close> and no comment request is made.
  When the run ends with \<^verbatim>\<open>GitHub comment failed (<status>): <body>\<close>, the Jira
  request was answered with success before, and the comment request is the last
  event of the run: nothing is undone.
\<close>

theorem run_ticket_before_comment:
  "(\<forall>pre rq post. fst (run w) = pre @ GhFetch rq # post \<longrightarrow> ticket_created w pre) \<and>
   (\<forall>jr res. JiraFetch jr \<in> set (fst (run w)) \<and> fetch w jr = Some res \<and> \<not> res_ok res \<longrightarrow>
      snd (run w) = Inl (Error (jiraFailedMessage (res_status res) (res_text res))) \<and>
      \<not> list_ex is_comment (fst (run w))) \<and>
   (\<forall>st body. snd (run w) = Inl (Error (ghFailedMessage st body)) \<longrightarrow>
      ticket_created w (fst (run w)) \<and> fst (run w) \<noteq> [] \<and> is_comment (last (fst (run w))))"
  using run_comment_after_ticket [of w] run_jira_failure [of _ w] run_comment_failure [of w]
  by blast

lemma example_run_jira_failed:
  "run (example_world example_env
         (Some \<lparr>res_ok = False, res_status = 400, res_text = ''bad''\<rparr>) None)
   = ([ReadFileSync ''event.json'', ReadFileSync ''bug.yml'',
       ConsoleLog ''=== Parsed Issue Form Fields (by ID) ==='', ConsoleLog ''json'',
       JiraFetch \<lparr>req_url = ''https://jira.example/rest/api/3/issue'', req_method = ''POST'',
         req_headers = [(''Authorization'', ''Basic bot@example.com:secret''),
                        (''Accept'', ''application/json''),
                        (''Content-Type'', ''application/json'')],
         req_body = ''json''\<rparr>],
      Inl (Error ''Jira create issue failed (400): bad''))"
  by code_simp

lemma example_run_comment_failed:
  "snd (run (example_world example_env
         (Some \<lparr>res_ok = True, res_status = 201, res_text = ''created''\<rparr>)
         (Some \<lparr>res_ok = False, res_status = 403, res_text = ''no''\<rparr>)))
   = Inl (Error (ghFailedMessage 403 ''no''))"
  by code_simp

lemma example_run_complete:
  "length (fst (run (example_world example_env
         (Some \<lparr>res_ok = True, res_status = 201, res_text = ''created''\<rparr>)
         (Some \<lparr>res_ok = True, res_status = 201, res_text = []\<rparr>)))) = 9 \<and>
   fst (run (example_world example_env
         (Some \<lparr>res_ok = True, res_status = 201, res_text = ''created''\<rparr>)
         (Some \<lparr>res_ok = True, res_status = 201, res_text = []\<rparr>))) ! 7
   = GhFetch \<lparr>req_url = ''https://api.github.com/repos/osano/sdk/issues/42/comments'',
       req_method = ''POST'',
       req_headers = [(''Authorization'', ''Bearer ghs''),
                      (''Accept'', ''application/vnd.github+json'')],
       req_body = ''json''\<rparr>"
  by code_simp

theorem run_ticket_before_comment_witness:
  "snd (run (example_world example_env
         (Some \<lparr>res_ok = False, res_status = 400, res_text = ''bad''\<rparr>) None))
     = Inl (Error (jiraFailedMessage 400 ''bad'')) \<and>
   \<not> list_ex is_comment (fst (run (example_world example_env
         (Some \<lparr>res_ok = False, res_status = 400, res_text = ''bad''\<rparr>) None))) \<and>
   snd (run (example_world example_env
         (Some \<lparr>res_ok = True, res_status = 201, res_text = ''created''\<rparr>)
         (Some \<lparr>res_ok = False, res_status = 403, res_text = ''no''\<rparr>)))
     = Inl (Error (ghFailedMessage 403 ''no'')) \<and>
   ticket_created (example_world example_env
         (Some \<lparr>res_ok = True, res_status = 201, res_text = ''created''\<rparr>)
         (Some \<lparr>res_ok = False, res_status = 403, res_text = ''no''\<rparr>))
     (fst (run (example_world example_env
         (Some \<lparr>res_ok = True, res_status = 201, res_text = ''created''\<rparr>)
         (Some \<lparr>res_ok = False, res_status = 403, res_text = ''no''\<rparr>)))) \<and>
   is_comment (last (fst (run (example_world example_env
         (Some \<lparr>res_ok = True, res_status = 201, res_text = ''created''\<rparr>)
         (Some \<lparr>res_ok = False, res_status = 403, res_text = ''no''\<rparr>))))) \<and>
   ticket_created (example_world example_env
         (Some \<lparr>res_ok = True, res_status = 201, res_text = ''created''\<rparr>)
         (Some \<lparr>res_ok = True, res_status = 201, res_text = []\<rparr>))
     (take 7 (fst (run (example_world example_env
         (Some \<lparr>res_ok = True, res_status = 201, res_text = ''created''\<rparr>)
         (Some \<lparr>res_ok = True, res_status = 201, res_text = []\<rparr>)))))"
proof -
  let ?bad = "\<lparr>res_ok = False, res_status = 400, res_text = ''bad''\<rparr>"
  let ?w1 = "example_world example_env (Some ?bad) None"
  let ?jr = "\<lparr>req_url = ''https://jira.example/rest/api/3/issue'', req_method = ''POST'',
         req_headers = [(''Authorization'', ''Basic bot@example.com:secret''),
                        (''Accept'', ''application/json''),
                        (''Content-Type'', ''application/json'')],
         req_body = ''json''\<rparr>"
  let ?w2 = "example_world example_env
         (Some \<lparr>res_ok = True, res_status = 201, res_text = ''created''\<rparr>)
         (Some \<lparr>res_ok = False, res_status = 403, res_text = ''no''\<rparr>)"
  let ?w3 = "example_world example_env
         (Some \<lparr>res_ok = True, res_status = 201, res_text = ''created''\<rparr>)
         (Some \<lparr>res_ok = True, res_status = 201, res_text = []\<rparr>)"
  let ?gr = "\<lparr>req_url = ''https://api.github.com/repos/osano/sdk/issues/42/comments'',
       req_method = ''POST'',
       req_headers = [(''Authorization'', ''Bearer ghs''),
                      (''Accept'', ''application/vnd.github+json'')],
       req_body = ''json''\<rparr>"
  have m1: "JiraFetch ?jr \<in> set (fst (run ?w1))"
    by (simp add: example_run_jira_failed)
  have f1: "fetch ?w1 ?jr = Some ?bad"
    by (simp add: example_world_def)
  have n1: "\<not> res_ok ?bad" by simp
  have a: "snd (run ?w1) = Inl (Error (jiraFailedMessage (res_status ?bad) (res_text ?bad))) \<and>
      \<not> list_ex is_comment (fst (run ?w1))"
    by (rule run_ticket_before_comment [of ?w1, THEN conjunct2, THEN conjunct1, rule_format,
          of ?jr ?bad, OF conjI [OF m1 conjI [OF f1 n1]]])
  have b: "ticket_created ?w2 (fst (run ?w2)) \<and> fst (run ?w2) \<noteq> [] \<and>
      is_comment (last (fst (run ?w2)))"
    by (rule run_ticket_before_comment [of ?w2, THEN conjunct2, THEN conjunct2, rule_format,
          OF example_run_comment_failed])
  have l: "7 < length (fst (run ?w3))"
    by (simp add: example_run_complete [THEN conjunct1])
  have "fst (run ?w3) = take 7 (fst (run ?w3)) @ fst (run ?w3) ! 7 # drop (Suc 7) (fst (run ?w3))"
    by (rule id_take_nth_drop [OF l])
  then have d: "fst (run ?w3) = take 7 (fst (run ?w3)) @ GhFetch ?gr # drop (Suc 7) (fst (run ?w3))"
    by (simp only: example_run_complete [THEN conjunct2])
  have c: "ticket_created ?w3 (take 7 (fst (run ?w3)))"
    by (rule run_ticket_before_comment [of ?w3, THEN conjunct1, rule_format, OF d])
  have a1: "snd (run ?w1) = Inl (Error (jiraFailedMessage 400 ''bad''))"
    using a [THEN conjunct1] by simp
  from a1 a [THEN conjunct2] example_run_comment_failed b [THEN conjunct1]
    b [THEN conjunct2, THEN conjunct2] c
  show ?thesis by (intro conjI)
qed

subsection \<open>Required environment variables\<close>

lemma prepare_no_event_path:
  "env w ''GITHUB_EVENT_PATH'' = None \<Longrightarrow> prepare w cfg = ([], Inl TypeError)"
  by (simp add: prepare_def readIssue_def readFileSync_def)

lemma prepare_no_repository:
  assumes "env w ''GITHUB_REPOSITORY'' = None"
  shows "\<exists>err. snd (prepare w cfg) = Inl err"
proof -
  from assms have "prepare w cfg = seq (readIssue w) (\<lambda>issue. ([], Inl TypeError))"
    by (simp add: prepare_def)
  then show ?thesis
    by (cases "snd (readIssue w)") (simp_all add: seq_def)
qed

lemma loadConfig_ok:
  assumes "\<forall>n \<in> set REQUIRED_ENV. is_set e n"
  shows "\<exists>cfg. loadConfig e = Inr cfg"
  using assms unfolding REQUIRED_ENV_def
  by (simp add: loadConfig_def andThen_def requiredEnv_is_set)

lemma run_no_repository:
  assumes "env w ''GITHUB_REPOSITORY'' = None"
  shows "(\<exists>err. snd (run w) = Inl err) \<and> list_all (\<lambda>ev. \<not> is_fetch ev) (fst (run w))"
proof (cases "loadConfig (env w)")
  case (Inl err)
  then show ?thesis by (simp add: run_config_error)
next
  case (Inr cfg)
  from prepare_no_repository [OF assms, of cfg] obtain err where "snd (prepare w cfg) = Inl err" ..
  then have "run w = (fst (prepare w cfg), Inl err)"
    by (simp add: run_config_ok [OF Inr] seq_def)
  with quiet_no_fetch [OF quiet_prepare [of w cfg]] show ?thesis by simp
qed

lemma not_is_set: "e name = None \<or> e name = Some [] \<Longrightarrow> \<not> is_set e name"
  by (auto simp: is_set_def)

text \<open>
  Claim C2, as amended. When one of the five variables read through
  \<^verbatim>\<open>requiredEnv\<close> is absent and those read before it are set, the run ends with the
  error \<^verbatim>\<open>Missing required env var: <name>\<close> and without any event: no file is
  read and no request is sent. When any of the five is absent, the run ends so
  with the name of the first one that is not set. \<^verbatim>\<open>GITHUB_EVENT_PATH\<close> and
  \<^verbatim>\<open>GITHUB_REPOSITORY\<close> are read without that check: with the five set and
  \<^verbatim>\<open>GITHUB_EVENT_PATH\<close> absent the run ends with a \<^verbatim>\<open>TypeError\<close> and without any
  event, and with \<^verbatim>\<open>GITHUB_REPOSITORY\<close> absent the run ends with an error and
  without any request.
\<close>

theorem run_required_env:
  "(name \<in> set REQUIRED_ENV \<and> env w name = None \<and>
      (\<forall>n \<in> set (takeWhile (\<lambda>n. n \<noteq> name) REQUIRED_ENV). is_set (env w) n) \<longrightarrow>
      run w = ([], Inl (Error (missingEnvMessage name)))) \<and>
   (name \<in> set REQUIRED_ENV \<and> env w name = None \<longrightarrow>
      (\<exists>n \<in> set REQUIRED_ENV. \<not> is_set (env w) n \<and>
         run w = ([], Inl (Error (missingEnvMessage n))))) \<and>
   ((\<forall>n \<in> set REQUIRED_ENV. is_set (env w) n) \<and> env w ''GITHUB_EVENT_PATH'' = None \<longrightarrow>
      run w = ([], Inl TypeError)) \<and>
   (env w ''GITHUB_REPOSITORY'' = None \<longrightarrow>
      (\<exists>err. snd (run w) = Inl err) \<and> list_all (\<lambda>ev. \<not> is_fetch ev) (fst (run w)))"
proof -
  have 1: "name \<in> set REQUIRED_ENV \<and> env w name = None \<and>
      (\<forall>n \<in> set (takeWhile (\<lambda>n. n \<noteq> name) REQUIRED_ENV). is_set (env w) n) \<longrightarrow>
      run w = ([], Inl (Error (missingEnvMessage name)))"
    using loadConfig_first_unset [of name "env w"] not_is_set [of "env w" name]
      run_config_error [of w "Error (missingEnvMessage name)"]
    by blast
  have 2: "name \<in> set REQUIRED_ENV \<and> env w name = None \<longrightarrow>
      (\<exists>n \<in> set REQUIRED_ENV. \<not> is_set (env w) n \<and>
         run w = ([], Inl (Error (missingEnvMessage n))))"
    using loadConfig_some_unset [of name "env w"] not_is_set [of "env w" name]
      run_config_error [of w]
    by blast
  have 3: "(\<forall>n \<in> set REQUIRED_ENV. is_set (env w) n) \<and> env w ''GITHUB_EVENT_PATH'' = None \<longrightarrow>
      run w = ([], Inl TypeError)"
  proof
    assume a: "(\<forall>n \<in> set REQUIRED_ENV. is_set (env w) n) \<and> env w ''GITHUB_EVENT_PATH'' = None"
    from loadConfig_ok [OF a [THEN conjunct1]] obtain cfg where "loadConfig (env w) = Inr cfg" ..
    with a [THEN conjunct2] show "run w = ([], Inl TypeError)"
      by (simp add: run_config_ok prepare_no_event_path)
  qed
  have 4: "env w ''GITHUB_REPOSITORY'' = None \<longrightarrow>
      (\<exists>err. snd (run w) = Inl err) \<and> list_all (\<lambda>ev. \<not> is_fetch ev) (fst (run w))"
    by (rule impI) (rule run_no_repository)
  from 1 2 3 4 show ?thesis by (intro conjI)
qed

lemma example_env_set:
  "is_set example_env ''ISSUE_TEMPLATE_PATH''" "is_set example_env ''JIRA_BASE_URL''"
  "is_set example_env ''JIRA_EMAIL''" "is_set example_env ''JIRA_API_TOKEN''"
  "is_set example_env ''GITHUB_TOKEN''"
  by (simp_all add: is_set_def example_env_def)

lemma env_example_world [simp]: "env (example_world e jira gh) = e"
  by (simp add: example_world_def)

theorem run_required_env_witness:
  "run (example_world (example_env(''JIRA_EMAIL'' := None)) None None)
     = ([], Inl (Error (missingEnvMessage ''JIRA_EMAIL''))) \<and>
   run (example_world (example_env(''GITHUB_EVENT_PATH'' := None)) None None)
     = ([], Inl TypeError) \<and>
   list_all (\<lambda>ev. \<not> is_fetch ev)
     (fst (run (example_world (example_env(''GITHUB_REPOSITORY'' := None)) None None)))"
proof -
  let ?w1 = "example_world (example_env(''JIRA_EMAIL'' := None)) None None"
  let ?w2 = "example_world (example_env(''GITHUB_EVENT_PATH'' := None)) None None"
  let ?w3 = "example_world (example_env(''GITHUB_REPOSITORY'' := None)) None None"
  have h1: "''JIRA_EMAIL'' \<in> set REQUIRED_ENV \<and> env ?w1 ''JIRA_EMAIL'' = None \<and>
      (\<forall>n \<in> set (takeWhile (\<lambda>n. n \<noteq> ''JIRA_EMAIL'') REQUIRED_ENV). is_set (env ?w1) n)"
    using example_env_set by (simp add: REQUIRED_ENV_def is_set_def)
  have a: "run ?w1 = ([], Inl (Error (missingEnvMessage ''JIRA_EMAIL'')))"
    by (rule run_required_env [of "''JIRA_EMAIL''" ?w1, THEN conjunct1, rule_format, OF h1])
  have h2: "(\<forall>n \<in> set REQUIRED_ENV. is_set (env ?w2) n) \<and> env ?w2 ''GITHUB_EVENT_PATH'' = None"
    using example_env_set by (simp add: REQUIRED_ENV_def is_set_def)
  have b: "run ?w2 = ([], Inl TypeError)"
    by (rule run_required_env [of "''JIRA_EMAIL''" ?w2, THEN conjunct2, THEN conjunct2,
          THEN conjunct1, rule_format, OF h2])
  have h3: "env ?w3 ''GITHUB_REPOSITORY'' = None" by simp
  have c: "list_all (\<lambda>ev. \<not> is_fetch ev) (fst (run ?w3))"
    by (rule run_required_env [of "''JIRA_EMAIL''" ?w3, THEN conjunct2, THEN conjunct2,
          THEN conjunct2, rule_format, OF h3, THEN conjunct2])
  from a b c show ?thesis by (intro conjI)
qed

text \<open>
  Claim C2 as the specification words it fails for the two variables that are not
  read through \<^verbatim>\<open>requiredEnv\<close>: without \<^verbatim>\<open>GITHUB_EVENT_PATH\<close> the error is a
  \<^verbatim>\<open>TypeError\<close>, and without \<^verbatim>\<open>GITHUB_REPOSITORY\<close> it is a \<^verbatim>\<open>TypeError\<close> raised
  after the event file has been read.
\<close>

theorem run_required_env_counterexample:
  "env (example_world (example_env(''GITHUB_EVENT_PATH'' := None)) None None)
     ''GITHUB_EVENT_PATH'' = None \<and>
   run (example_world (example_env(''GITHUB_EVENT_PATH'' := None)) None None)
     \<noteq> ([], Inl (Error (missingEnvMessage ''GITHUB_EVENT_PATH''))) \<and>
   env (example_world (example_env(''GITHUB_REPOSITORY'' := None)) None None)
     ''GITHUB_REPOSITORY'' = None \<and>
   run (example_world (example_env(''GITHUB_REPOSITORY'' := None)) None None)
     = ([ReadFileSync ''event.json''], Inl TypeError)"
proof -
  have a: "run (example_world (example_env(''GITHUB_EVENT_PATH'' := None)) None None)
     = ([], Inl TypeError)"
    by code_simp
  have b: "run (example_world (example_env(''GITHUB_REPOSITORY'' := None)) None None)
     = ([ReadFileSync ''event.json''], Inl TypeError)"
    by code_simp
  show ?thesis by (simp add: a b)
qed

subsection \<open>Empty environment variables\<close>

lemma loadConfig_same_set:
  assumes "\<forall>n. is_set e n = is_set e' n" and "\<exists>n \<in> set REQUIRED_ENV. \<not> is_set e n"
  shows "loadConfig e = loadConfig e'"
proof -
  from assms(2) have "\<not> is_set e ''ISSUE_TEMPLATE_PATH'' \<or> \<not> is_set e ''JIRA_BASE_URL'' \<or>
      \<not> is_set e ''JIRA_EMAIL'' \<or> \<not> is_set e ''JIRA_API_TOKEN'' \<or> \<not> is_set e ''GITHUB_TOKEN''"
    unfolding REQUIRED_ENV_def by simp
  then show ?thesis
    by (subst loadConfig_if, subst (2) loadConfig_if) (simp add: assms(1) [rule_format, symmetric])
qed

lemma run_empty_is_absent:
  assumes "name \<in> set REQUIRED_ENV" and "env w name = Some []"
  shows "run w = run (w\<lparr>env := (env w)(name := None)\<rparr>)"
proof -
  from assms(2) have n: "\<not> is_set (env w) name" by (simp add: is_set_def)
  from assms(2) have s: "\<forall>n. is_set (env w) n = is_set ((env w)(name := None)) n"
    by (simp add: is_set_def)
  from assms(1) n have ex: "\<exists>n \<in> set REQUIRED_ENV. \<not> is_set (env w) n" by blast
  from loadConfig_some_unset [OF assms(1) n] obtain n' where
    l: "loadConfig (env w) = Inl (Error (missingEnvMessage n'))" by blast
  with loadConfig_same_set [OF s ex]
  have "loadConfig ((env w)(name := None)) = Inl (Error (missingEnvMessage n'))" by simp
  then have "run (w\<lparr>env := (env w)(name := None)\<rparr>) = ([], Inl (Error (missingEnvMessage n')))"
    by (simp add: run_def)
  with run_config_error [OF l] show ?thesis by simp
qed

text \<open>
  Claim C10. A variable read through \<^verbatim>\<open>requiredEnv\<close> that is set to the empty
  string is treated as an absent one: \<^verbatim>\<open>requiredEnv\<close> raises
  \<^verbatim>\<open>Missing required env var: <name>\<close>, the run with the empty value is the run with
  the variable removed, and when the variables read before it are set the run ends
  with that error and without any event.
\<close>

theorem run_empty_env_var:
  "(e name = Some [] \<longrightarrow>
      requiredEnv e name = Inl (Error (missingEnvMessage name)) \<and>
      requiredEnv e name = requiredEnv (e(name := None)) name) \<and>
   (name \<in> set REQUIRED_ENV \<and> env w name = Some [] \<longrightarrow>
      run w = run (w\<lparr>env := (env w)(name := None)\<rparr>)) \<and>
   (name \<in> set REQUIRED_ENV \<and> env w name = Some [] \<and>
      (\<forall>n \<in> set (takeWhile (\<lambda>n. n \<noteq> name) REQUIRED_ENV). is_set (env w) n) \<longrightarrow>
      run w = ([], Inl (Error (missingEnvMessage name))))"
proof -
  have 1: "e name = Some [] \<longrightarrow>
      requiredEnv e name = Inl (Error (missingEnvMessage name)) \<and>
      requiredEnv e name = requiredEnv (e(name := None)) name"
    by (simp add: requiredEnv_def)
  have 2: "name \<in> set REQUIRED_ENV \<and> env w name = Some [] \<longrightarrow>
      run w = run (w\<lparr>env := (env w)(name := None)\<rparr>)"
    using run_empty_is_absent [of name w] by blast
  have 3: "name \<in> set REQUIRED_ENV \<and> env w name = Some [] \<and>
      (\<forall>n \<in> set (takeWhile (\<lambda>n. n \<noteq> name) REQUIRED_ENV). is_set (env w) n) \<longrightarrow>
      run w = ([], Inl (Error (missingEnvMessage name)))"
    using loadConfig_first_unset [of name "env w"] not_is_set [of "env w" name]
      run_config_error [of w "Error (missingEnvMessage name)"]
    by blast
  from 1 2 3 show ?thesis by (intro conjI)
qed

theorem run_empty_env_var_witness:
  "requiredEnv (example_env(''JIRA_API_TOKEN'' \<mapsto> [])) ''JIRA_API_TOKEN''
     = Inl (Error (missingEnvMessage ''JIRA_API_TOKEN'')) \<and>
   run (example_world (example_env(''JIRA_API_TOKEN'' \<mapsto> [])) None None)
     = ([], Inl (Error (missingEnvMessage ''JIRA_API_TOKEN'')))"
proof -
  let ?e = "example_env(''JIRA_API_TOKEN'' \<mapsto> [])"
  let ?w = "example_world ?e None None"
  have h1: "?e ''JIRA_API_TOKEN'' = Some []" by simp
  have a: "requiredEnv ?e ''JIRA_API_TOKEN'' = Inl (Error (missingEnvMessage ''JIRA_API_TOKEN''))"
    by (rule run_empty_env_var [of ?e "''JIRA_API_TOKEN''" ?w, THEN conjunct1, rule_format,
          OF h1, THEN conjunct1])
  have h3: "''JIRA_API_TOKEN'' \<in> set REQUIRED_ENV \<and> env ?w ''JIRA_API_TOKEN'' = Some [] \<and>
      (\<forall>n \<in> set (takeWhile (\<lambda>n. n \<noteq> ''JIRA_API_TOKEN'') REQUIRED_ENV). is_set (env ?w) n)"
    using example_env_set by (simp add: REQUIRED_ENV_def is_set_def)
  have b: "run ?w = ([], Inl (Error (missingEnvMessage ''JIRA_API_TOKEN'')))"
    by (rule run_empty_env_var [of ?e "''JIRA_API_TOKEN''" ?w, THEN conjunct2, THEN conjunct2,
          rule_format, OF h3])
  from a b show ?thesis by (intro conjI)
qed

end
